theory Spec2Isabelle
  imports Main "HOL-Library.FSet" "HOL-Library.Multiset"
begin

section \<open>Python strings\<close>

text \<open>
  A Python string is represented by the bytes of its UTF-8 encoding, so equality,
  emptiness and concatenation are those of the Python strings.

  \<^verbatim>\<open>str.strip()\<close> removes at both ends the code points that Python counts as
  whitespace: tab, line feed, vertical tab, form feed, carriage return, the four
  separators \<^verbatim>\<open>U+001C\<close> to \<^verbatim>\<open>U+001F\<close> and space, each one byte, and \<^verbatim>\<open>U+0085\<close>,
  \<^verbatim>\<open>U+00A0\<close>, \<^verbatim>\<open>U+1680\<close>, \<^verbatim>\<open>U+2000\<close> to \<^verbatim>\<open>U+200A\<close>, \<^verbatim>\<open>U+2028\<close>, \<^verbatim>\<open>U+2029\<close>, \<^verbatim>\<open>U+202F\<close>,
  \<^verbatim>\<open>U+205F\<close> and \<^verbatim>\<open>U+3000\<close>, each two or three bytes. \<open>drop_spaces\<close> removes such
  code points from the front of a string, one at a time; at the end of the string the
  same is done on the reversed string with the reversed encodings (in UTF-8 a lead
  byte is never a continuation byte, so an encoding found at the end of a string is a
  code point of the string).
\<close>

definition ascii_spaces :: "char list" where
  "ascii_spaces = [CHR 0x09, CHR 0x0A, CHR 0x0B, CHR 0x0C, CHR 0x0D,
                   CHR 0x1C, CHR 0x1D, CHR 0x1E, CHR 0x1F, CHR 0x20]"

definition wide_spaces :: "string list" where
  "wide_spaces =
     [[CHR 0xC2, CHR 0x85], [CHR 0xC2, CHR 0xA0], [CHR 0xE1, CHR 0x9A, CHR 0x80],
      [CHR 0xE2, CHR 0x80, CHR 0x80], [CHR 0xE2, CHR 0x80, CHR 0x81],
      [CHR 0xE2, CHR 0x80, CHR 0x82], [CHR 0xE2, CHR 0x80, CHR 0x83],
      [CHR 0xE2, CHR 0x80, CHR 0x84], [CHR 0xE2, CHR 0x80, CHR 0x85],
      [CHR 0xE2, CHR 0x80, CHR 0x86], [CHR 0xE2, CHR 0x80, CHR 0x87],
      [CHR 0xE2, CHR 0x80, CHR 0x88], [CHR 0xE2, CHR 0x80, CHR 0x89],
      [CHR 0xE2, CHR 0x80, CHR 0x8A], [CHR 0xE2, CHR 0x80, CHR 0xA8],
      [CHR 0xE2, CHR 0x80, CHR 0xA9], [CHR 0xE2, CHR 0x80, CHR 0xAF],
      [CHR 0xE2, CHR 0x81, CHR 0x9F], [CHR 0xE3, CHR 0x80, CHR 0x80]]"

definition space_tokens :: "string list" where
  "space_tokens = map (\<lambda>c. [c]) ascii_spaces @ wide_spaces"

function drop_spaces :: "string list \<Rightarrow> string \<Rightarrow> string" where
  "drop_spaces toks s =
     (case find (\<lambda>t. t \<noteq> [] \<and> take (length t) s = t) toks of
        None \<Rightarrow> s
      | Some t \<Rightarrow> drop_spaces toks (drop (length t) s))"
  by pat_completeness auto
termination
proof (relation "measure (\<lambda>(toks, s). length s)")
  show "wf (measure (\<lambda>(toks, s). length s))" by simp
next
  fix toks :: "string list" and s t :: string
  assume "find (\<lambda>t. t \<noteq> [] \<and> take (length t) s = t) toks = Some t"
  then have t: "t \<noteq> []" "take (length t) s = t"
    by (auto simp: find_Some_iff)
  then have "s \<noteq> []" by auto
  with t(1) show "((toks, drop (length t) s), (toks, s)) \<in> measure (\<lambda>(toks, s). length s)"
    by simp
qed

declare drop_spaces.simps [simp del]

definition strip :: "string \<Rightarrow> string" where
  "strip s = rev (drop_spaces (map rev space_tokens) (rev (drop_spaces space_tokens s)))"

section \<open>Character Aggregator: scoring and selection\<close>

text \<open>
  Source: \<^verbatim>\<open>src/backend/scripts/build_main_character_profiles.py\<close>.

  An aggregated entry is the dict built by \<^verbatim>\<open>aggregate_characters\<close>: two Python sets
  (\<^verbatim>\<open>aliases\<close>, \<^verbatim>\<open>chapters_seen\<close>), the dict \<^verbatim>\<open>importance_counts\<close> with its four fixed
  keys, and the list of mentions. The four-key dict is a record with one field per key;
  the sets are finite sets, so that \<^verbatim>\<open>len\<close> is \<open>fcard\<close>.

  Scores are Python floats. Every score computed here is a sum of integers and of a
  multiple of one half, which binary floating point represents exactly (as long as
  the counts stay below \<open>2^50\<close>), so the model computes in \<open>rat\<close>; \<^verbatim>\<open>min_score\<close> is
  a finite number (no NaN, no infinity).
\<close>

datatype Importance = ImpMainProtagonist | ImpSecondaryLead | ImpSupporting | ImpMinor

text \<open>
  A trait snippet is the triple of its \<^verbatim>\<open>category\<close>, \<^verbatim>\<open>original_text\<close> and \<^verbatim>\<open>normalized\<close>
  strings; the aggregation stores snippets with their mention and does not read them.
\<close>

record ChapterCharacterMention =
  canonical_name :: string
  aliases :: "string list"
  importance :: Importance
  chapter_id :: string
  chapter_role_summary :: string
  trait_snippets :: "(string \<times> string \<times> string) list"

record ChapterCharactersWithTraits =
  chapter_id :: string
  characters :: "ChapterCharacterMention list"

record ImportanceCounts =
  main_protagonist :: nat
  secondary_lead :: nat
  supporting :: nat
  minor :: nat

record AggregatedCharacter =
  aliases :: "string fset"
  chapters_seen :: "string fset"
  importance_counts :: ImportanceCounts
  mentions :: "ChapterCharacterMention list"

text \<open>
  \<^verbatim>\<open>aggregate_characters\<close>. \<^verbatim>\<open>char_map\<close> is a Python dict, iterated in insertion order:
  an association list in which a new name is appended and an existing name keeps its
  place.
  \<^verbatim>\<open>
      for ch in chapter_results:
          for c in ch.characters:
              name = c.canonical_name.strip()
              if not name:
                  continue
              if name not in char_map:
                  char_map[name] = {"aliases": set(), "chapters_seen": set(),
                      "importance_counts": {"main_protagonist": 0, "secondary_lead": 0,
                                            "supporting": 0, "minor": 0},
                      "mentions": []}
              entry = char_map[name]
              entry["aliases"].update(a.strip() for a in c.aliases if a)
              entry["chapters_seen"].add(c.chapter_id)
              entry["importance_counts"][c.importance] += 1
              entry["mentions"].append(c)
  \<close>
\<close>

definition new_entry :: AggregatedCharacter where
  "new_entry = \<lparr> aliases = {||}, chapters_seen = {||},
                 importance_counts =
                   \<lparr> main_protagonist = 0, secondary_lead = 0, supporting = 0, minor = 0 \<rparr>,
                 mentions = [] \<rparr>"

definition count_importance :: "Importance \<Rightarrow> ImportanceCounts \<Rightarrow> ImportanceCounts" where
  "count_importance imp counts =
     (case imp of
        ImpMainProtagonist \<Rightarrow> counts\<lparr>main_protagonist := main_protagonist counts + 1\<rparr>
      | ImpSecondaryLead \<Rightarrow> counts\<lparr>secondary_lead := secondary_lead counts + 1\<rparr>
      | ImpSupporting \<Rightarrow> counts\<lparr>supporting := supporting counts + 1\<rparr>
      | ImpMinor \<Rightarrow> counts\<lparr>minor := minor counts + 1\<rparr>)"

definition record_mention :: "ChapterCharacterMention \<Rightarrow> AggregatedCharacter \<Rightarrow> AggregatedCharacter" where
  "record_mention c entry =
     entry\<lparr> aliases := aliases entry
                   |\<union>| fset_of_list (map strip (filter (\<lambda>a. a \<noteq> []) (ChapterCharacterMention.aliases c))),
            chapters_seen := finsert (ChapterCharacterMention.chapter_id c) (chapters_seen entry),
            importance_counts := count_importance (importance c) (importance_counts entry),
            mentions := mentions entry @ [c] \<rparr>"

fun upsert ::
  "string \<Rightarrow> (AggregatedCharacter \<Rightarrow> AggregatedCharacter)
     \<Rightarrow> (string \<times> AggregatedCharacter) list \<Rightarrow> (string \<times> AggregatedCharacter) list" where
  "upsert name f [] = [(name, f new_entry)]"
| "upsert name f ((k, entry) # rest) =
     (if k = name then (k, f entry) # rest else (k, entry) # upsert name f rest)"

fun characters_loop ::
  "ChapterCharacterMention list \<Rightarrow> (string \<times> AggregatedCharacter) list
     \<Rightarrow> (string \<times> AggregatedCharacter) list" where
  "characters_loop [] char_map = char_map"
| "characters_loop (c # cs) char_map =
     (let name = strip (canonical_name c) in
      if name = [] then characters_loop cs char_map
      else characters_loop cs (upsert name (record_mention c) char_map))"

fun chapters_loop ::
  "ChapterCharactersWithTraits list \<Rightarrow> (string \<times> AggregatedCharacter) list
     \<Rightarrow> (string \<times> AggregatedCharacter) list" where
  "chapters_loop [] char_map = char_map"
| "chapters_loop (ch # rest) char_map =
     chapters_loop rest (characters_loop (characters ch) char_map)"

definition aggregate_characters ::
  "ChapterCharactersWithTraits list \<Rightarrow> (string \<times> AggregatedCharacter) list" where
  "aggregate_characters chapter_results = chapters_loop chapter_results []"

text \<open>
  \<^verbatim>\<open>
  def score_character(entry: dict) -> float:
      counts = entry["importance_counts"]
      score = (
          counts["main_protagonist"] * 3.0
          + counts["secondary_lead"] * 2.0
          + counts["supporting"] * 1.0
      )
      score += len(entry["chapters_seen"]) * 0.5
      return score
  \<close>
\<close>

definition score_character :: "AggregatedCharacter \<Rightarrow> rat" where
  "score_character entry =
     (let counts = importance_counts entry;
          score = of_nat (main_protagonist counts) * 3
                + of_nat (secondary_lead counts) * 2
                + of_nat (supporting counts) * 1;
          score = score + of_nat (fcard (chapters_seen entry)) * (1 / 2)
      in score)"

text \<open>
  The items of \<^verbatim>\<open>scored\<close> are the tuples \<^verbatim>\<open>(name, s, entry)\<close>; \<^verbatim>\<open>x[1]\<close> is the score.
  \<^verbatim>\<open>char_map\<close> is a Python dict, iterated in insertion order: an association list.
\<close>

type_synonym ScoredItem = "string \<times> rat \<times> AggregatedCharacter"

definition item_score :: "ScoredItem \<Rightarrow> rat" where
  "item_score x = fst (snd x)"

text \<open>
  The loop \<^verbatim>\<open>for name, entry in char_map.items(): s = score_character(entry);
  scored.append((name, s, entry))\<close>, with \<^verbatim>\<open>scored\<close> as the accumulator.
\<close>

fun scored_loop :: "(string \<times> AggregatedCharacter) list \<Rightarrow> ScoredItem list \<Rightarrow> ScoredItem list" where
  "scored_loop [] scored = scored"
| "scored_loop ((name, entry) # rest) scored =
     (let s = score_character entry in scored_loop rest (scored @ [(name, s, entry)]))"

text \<open>
  \<^verbatim>\<open>list.sort(key=..., reverse=True)\<close>: CPython reverses the list, sorts it stably in
  ascending key order, and reverses the result, which keeps elements with equal keys
  in their original order. \<open>sort_key\<close> is the stable insertion sort of the library.
\<close>

definition list_sort_reverse :: "('a \<Rightarrow> rat) \<Rightarrow> 'a list \<Rightarrow> 'a list" where
  "list_sort_reverse key xs = rev (sort_key key (rev xs))"

text \<open>
  The slice \<^verbatim>\<open>xs[:stop]\<close>: a negative \<^verbatim>\<open>stop\<close> counts from the end of the list.
\<close>

definition slice_upto :: "'a list \<Rightarrow> int \<Rightarrow> 'a list" where
  "slice_upto xs stop =
     (if 0 \<le> stop then take (nat stop) xs
      else take (nat (int (length xs) + stop)) xs)"

text \<open>
  \<^verbatim>\<open>
  def select_main_characters(char_map, max_main_chars=3, min_score=3.0):
      scored = []
      for name, entry in char_map.items():
          s = score_character(entry)
          scored.append((name, s, entry))
      scored.sort(key=lambda x: x[1], reverse=True)
      scored = [item for item in scored if item[1] >= min_score]
      return scored[:max_main_chars]
  \<close>
\<close>

definition select_main_characters ::
  "(string \<times> AggregatedCharacter) list \<Rightarrow> int \<Rightarrow> rat \<Rightarrow> ScoredItem list" where
  "select_main_characters char_map max_main_chars min_score =
     (let scored = scored_loop char_map [];
          scored = list_sort_reverse item_score scored;
          scored = filter (\<lambda>item. item_score item \<ge> min_score) scored
      in slice_upto scored max_main_chars)"

text \<open>
  The specification's reading of the same operation, for comparison: the scored
  items of the map in input order, and what it means for a list to be that list
  sorted by descending score with ties in input order.
\<close>

definition scored_items :: "(string \<times> AggregatedCharacter) list \<Rightarrow> ScoredItem list" where
  "scored_items char_map = map (\<lambda>(name, entry). (name, score_character entry, entry)) char_map"

definition stable_descending :: "ScoredItem list \<Rightarrow> ScoredItem list \<Rightarrow> bool" where
  "stable_descending xs ys \<longleftrightarrow>
     mset ys = mset xs \<and>
     sorted_wrt (\<lambda>a b. item_score a \<ge> item_score b) ys \<and>
     (\<forall>k. filter (\<lambda>x. item_score x = k) ys = filter (\<lambda>x. item_score x = k) xs)"

text \<open>Concrete entries used to exercise the functions.\<close>

definition chu_yu :: AggregatedCharacter where
  "chu_yu = \<lparr> aliases = {|''Yu''|},
              chapters_seen = {|''ch1'', ''ch2'', ''ch3'', ''ch4'', ''ch5'', ''ch6''|},
              importance_counts =
                \<lparr> main_protagonist = 5, secondary_lead = 0, supporting = 1, minor = 0 \<rparr>,
              mentions = [] \<rparr>"

definition wei_yun :: AggregatedCharacter where
  "wei_yun = \<lparr> aliases = {||},
               chapters_seen = {|''ch1'', ''ch2''|},
               importance_counts =
                 \<lparr> main_protagonist = 0, secondary_lead = 2, supporting = 0, minor = 3 \<rparr>,
               mentions = [] \<rparr>"

text \<open>
  Scenario B of the specification: six chapter results in which Chu Yu is the main
  protagonist five times and a supporting character once.
\<close>

definition mk_mention :: "string \<Rightarrow> Importance \<Rightarrow> string \<Rightarrow> ChapterCharacterMention" where
  "mk_mention n imp cid =
     \<lparr> canonical_name = n, ChapterCharacterMention.aliases = [], importance = imp,
       ChapterCharacterMention.chapter_id = cid, chapter_role_summary = [], trait_snippets = [] \<rparr>"

definition mk_result :: "string \<Rightarrow> Importance \<Rightarrow> ChapterCharactersWithTraits" where
  "mk_result cid imp =
     \<lparr> ChapterCharactersWithTraits.chapter_id = cid,
       characters = [mk_mention '' Chu Yu'' imp cid] \<rparr>"

definition scenario_b :: "ChapterCharactersWithTraits list" where
  "scenario_b =
     [mk_result ''ch1'' ImpMainProtagonist, mk_result ''ch2'' ImpMainProtagonist,
      mk_result ''ch3'' ImpSupporting, mk_result ''ch4'' ImpMainProtagonist,
      mk_result ''ch5'' ImpMainProtagonist, mk_result ''ch6'' ImpMainProtagonist]"

definition tie_map :: "(string \<times> AggregatedCharacter) list" where
  "tie_map = [(''Wei Yun'', wei_yun), (''Chu Yu'', chu_yu), (''Wei Qing'', wei_yun)]"

section \<open>Scene index and Keyframe Deriver\<close>

text \<open>
  Source: \<^verbatim>\<open>src/backend/scripts/trailer_to_keyframe.py\<close>; the JSON read there is the
  output of \<^verbatim>\<open>novel_scenes_extraction.py\<close> (\<^verbatim>\<open>NovelScenes\<close>, \<^verbatim>\<open>ChapterScenes\<close>,
  \<^verbatim>\<open>Scene\<close>) and of \<^verbatim>\<open>scene_to_trailer.py\<close> (\<^verbatim>\<open>TrailerScript\<close>, \<^verbatim>\<open>TrailerBeat\<close>).

  The dicts are records. A string field read with \<^verbatim>\<open>.get\<close> and then tested for
  truthiness holds the empty string when the key is absent: an absent key, \<^verbatim>\<open>None\<close> and
  \<^verbatim>\<open>""\<close> take the same branch in the code. The fields \<^verbatim>\<open>chapter\<close> and \<^verbatim>\<open>function\<close> of
  a scene are named \<open>scene_chapter\<close> and \<open>scene_function\<close> here.
\<close>

record Scene =
  scene_id :: string
  scene_chapter :: string
  brief :: string
  original_text :: string
  characters :: "string list"
  emotion_tags :: "string list"
  scene_function :: string

record ChapterScenes =
  chapter_id :: string
  chapter_title :: string
  volume_name :: "string option"
  scenes :: "Scene list"

text \<open>
  The key \<^verbatim>\<open>metadata\<close> of the scenes file is absent, \<^verbatim>\<open>null\<close>, or a dict whose
  \<^verbatim>\<open>bookCode\<close> entry, if any, is kept. For \<^verbatim>\<open>novel_id\<close> and \<^verbatim>\<open>title\<close>, \<open>None\<close> is an
  absent key.
\<close>

datatype NovelMetadata = MetadataAbsent | MetadataNull | MetadataDict "string option"

record NovelScenes =
  novel_id :: "string option"
  title :: "string option"
  metadata :: NovelMetadata
  chapters :: "ChapterScenes list"

text \<open>The compound reference \<^verbatim>\<open>f"{chap_id}_s{sid}"\<close>.\<close>

definition compound_id :: "string \<Rightarrow> string \<Rightarrow> string" where
  "compound_id chap_id sid = chap_id @ ''_s'' @ sid"

text \<open>
  \<^verbatim>\<open>
  def index_scenes_by_id(novel_scenes_output: dict) -> Dict[str, dict]:
      mapping: Dict[str, dict] = {}
      for ch in novel_scenes_output.get("chapters", []):
          chap_id = ch.get("chapter_id", "")
          for s in ch.get("scenes", []):
              sid = s.get("scene_id")
              if not sid:
                  continue
              if chap_id:
                  compound = f"{chap_id}_s{sid}"
                  mapping[compound] = s
              mapping[sid] = s
      return mapping
  \<close>
  The inner and the outer loop, with the dict \<^verbatim>\<open>mapping\<close> passed along.
\<close>

fun index_scene_loop :: "string \<Rightarrow> Scene list \<Rightarrow> (string \<rightharpoonup> Scene) \<Rightarrow> (string \<rightharpoonup> Scene)" where
  "index_scene_loop chap_id [] mapping = mapping"
| "index_scene_loop chap_id (s # rest) mapping =
     (let sid = scene_id s in
      if sid = [] then index_scene_loop chap_id rest mapping
      else
        let mapping = (if chap_id \<noteq> [] then mapping(compound_id chap_id sid \<mapsto> s) else mapping);
            mapping = mapping(sid \<mapsto> s)
        in index_scene_loop chap_id rest mapping)"

fun index_chapter_loop :: "ChapterScenes list \<Rightarrow> (string \<rightharpoonup> Scene) \<Rightarrow> (string \<rightharpoonup> Scene)" where
  "index_chapter_loop [] mapping = mapping"
| "index_chapter_loop (ch # rest) mapping =
     (let chap_id = chapter_id ch in
      index_chapter_loop rest (index_scene_loop chap_id (scenes ch) mapping))"

definition index_scenes_by_id :: "NovelScenes \<Rightarrow> (string \<rightharpoonup> Scene)" where
  "index_scenes_by_id novel_scenes_output = index_chapter_loop (chapters novel_scenes_output) Map.empty"

text \<open>
  For the statements about the index: the assignments \<^verbatim>\<open>mapping[key] = s\<close> that the two
  loops execute, as a list of key and scene in execution order.
\<close>

definition scene_writes :: "string \<Rightarrow> Scene \<Rightarrow> (string \<times> Scene) list" where
  "scene_writes chap_id s =
     (if scene_id s = [] then []
      else (if chap_id \<noteq> [] then [(compound_id chap_id (scene_id s), s)] else [])
           @ [(scene_id s, s)])"

definition chapter_writes :: "ChapterScenes \<Rightarrow> (string \<times> Scene) list" where
  "chapter_writes ch = concat (map (scene_writes (chapter_id ch)) (scenes ch))"

definition index_writes :: "NovelScenes \<Rightarrow> (string \<times> Scene) list" where
  "index_writes novel_scenes_output = concat (map chapter_writes (chapters novel_scenes_output))"

subsection \<open>Trailer script and keyframes\<close>

text \<open>
  \<^verbatim>\<open>TrailerBeat\<close> and \<^verbatim>\<open>TrailerScript\<close> of \<^verbatim>\<open>scene_to_trailer.py\<close>. \<^verbatim>\<open>duration_sec\<close> is a
  Python float, a rational number here. A beat read back from JSON without the key
  \<^verbatim>\<open>source_scenes\<close> or \<^verbatim>\<open>characters\<close> has the empty list there (\<^verbatim>\<open>beat.get(..., [])\<close>).
\<close>

datatype BeatRole = hook | conflict | escalation | cliffhanger

datatype SpoilerLevel = spoiler_none | spoiler_light | spoiler_medium | spoiler_heavy

record TrailerBeat =
  beat_id :: string
  role :: BeatRole
  duration_sec :: rat
  source_scenes :: "string list"
  characters :: "string list"
  logline :: string
  visual_idea :: string
  key_moments :: "string list"
  dialogue_or_text :: "string list"
  spoiler_level :: SpoilerLevel
  reasoning :: string

record TrailerScript =
  novel_id :: string
  title :: string
  target_audience :: string
  platform :: string
  max_duration_sec :: int
  style_tags :: "string list"
  beats :: "TrailerBeat list"
  notes_for_storyboard :: string

text \<open>A JSON value, for the free-form dict \<^verbatim>\<open>story_grounding\<close>.\<close>

datatype json = JNull | JBool bool | JNum rat | JStr string | JArr "json list"
  | JObj "(string \<times> json) list"

text \<open>
  \<^verbatim>\<open>Keyframe\<close>, \<^verbatim>\<open>BeatKeyframes\<close> and \<^verbatim>\<open>KeyframePlan\<close>, as declared in
  \<^verbatim>\<open>trailer_to_keyframe.py\<close> (the same thirteen fields are declared again in
  \<^verbatim>\<open>unify_keyframe_style.py\<close>).
\<close>

record Keyframe =
  kf_id :: string
  beat_id :: string
  order_in_beat :: int
  suggested_duration_sec :: rat
  shot_type :: string
  camera_angle :: string
  composition :: string
  action :: string
  emotion_tags :: "string list"
  characters :: "string list"
  story_grounding :: json
  dialogue_or_text :: "string option"
  image_prompt :: string

record BeatKeyframes =
  beat_id :: string
  role :: string
  keyframes :: "Keyframe list"

record KeyframePlan =
  novel_id :: string
  title :: string
  keyframes :: "Keyframe list"

text \<open>
  The generation service is outside the program. A call either raises or returns a
  response whose text \<^verbatim>\<open>BeatKeyframes.model_validate_json\<close> accepts or rejects;
  \<^verbatim>\<open>generate_keyframes_for_trailer\<close> catches none of these exceptions. The prompt is
  built by \<^verbatim>\<open>build_keyframe_prompt_for_beat\<close> from the beat, the resolved scenes, the
  novel id and the title: the request carries these four. The service is a function of
  the number of calls made before and of the request, so that two calls with equal
  requests may answer differently.
\<close>

datatype error = ApiError | ValidationError | ValueError | AttributeError | NameError

record KeyframeRequest =
  req_beat :: TrailerBeat
  req_scenes :: "Scene list"
  req_novel_id :: string
  req_title :: string

type_synonym keyframe_service = "nat \<Rightarrow> KeyframeRequest \<Rightarrow> error + BeatKeyframes"

text \<open>
  \<^verbatim>\<open>scenes_for_beat = [scene_index[sid] for sid in source_ids if sid in scene_index]\<close>
\<close>

fun scenes_for_beat :: "(string \<rightharpoonup> Scene) \<Rightarrow> string list \<Rightarrow> Scene list" where
  "scenes_for_beat scene_index [] = []"
| "scenes_for_beat scene_index (sid # source_ids) =
     (case scene_index sid of
        Some s \<Rightarrow> s # scenes_for_beat scene_index source_ids
      | None \<Rightarrow> scenes_for_beat scene_index source_ids)"

text \<open>
  The loop \<^verbatim>\<open>for beat in beats\<close> of \<^verbatim>\<open>generate_keyframes_for_trailer\<close>, with the number
  of service calls made so far and the accumulator \<^verbatim>\<open>all_keyframes\<close>:
  \<^verbatim>\<open>
      source_ids = beat.get("source_scenes", [])
      scenes_for_beat = [scene_index[sid] for sid in source_ids if sid in scene_index]
      if not scenes_for_beat:
          print(f"[WARN] No scenes found for beat {beat_id}, skipping.")
          continue
      prompt = build_keyframe_prompt_for_beat(beat, scenes_for_beat, novel_id, title)
      response = client.models.generate_content(...)
      ...
      beat_kf = BeatKeyframes.model_validate_json(raw)
      beat_characters = beat.get("characters", [])
      for kf in beat_kf.keyframes:
          kf.characters = beat_characters
      all_keyframes.extend(beat_kf.keyframes)
  \<close>
\<close>

fun beats_loop ::
  "keyframe_service \<Rightarrow> (string \<rightharpoonup> Scene) \<Rightarrow> string \<Rightarrow> string \<Rightarrow> TrailerBeat list
     \<Rightarrow> nat \<Rightarrow> Keyframe list \<Rightarrow> error + Keyframe list" where
  "beats_loop client scene_index nid ttl [] calls all_keyframes = Inr all_keyframes"
| "beats_loop client scene_index nid ttl (beat # rest) calls all_keyframes =
     (let source_ids = source_scenes beat;
          sfb = scenes_for_beat scene_index source_ids
      in if sfb = [] then beats_loop client scene_index nid ttl rest calls all_keyframes
         else
           (case client calls \<lparr> req_beat = beat, req_scenes = sfb,
                                 req_novel_id = nid, req_title = ttl \<rparr> of
              Inl e \<Rightarrow> Inl e
            | Inr beat_kf \<Rightarrow>
                let beat_characters = TrailerBeat.characters beat;
                    kfs = map (\<lambda>kf. kf\<lparr>characters := beat_characters\<rparr>)
                              (BeatKeyframes.keyframes beat_kf)
                in beats_loop client scene_index nid ttl rest (Suc calls) (all_keyframes @ kfs)))"

text \<open>
  \<^verbatim>\<open>generate_keyframes_for_trailer\<close> on the two decoded JSON files; the result is the
  plan written to the output file, or the exception that ended the run.
  \<^verbatim>\<open>
      novel_id = trailer_script.get("novel_id") or novel_scenes_output.get("novel_id", "unknown_novel")
      title = trailer_script.get("title") or novel_scenes_output.get("title", "unknown_title")
  \<close>
\<close>

definition generate_keyframes_for_trailer ::
  "keyframe_service \<Rightarrow> NovelScenes \<Rightarrow> TrailerScript \<Rightarrow> error + KeyframePlan" where
  "generate_keyframes_for_trailer client novel_scenes_output trailer_script =
     (let scene_index = index_scenes_by_id novel_scenes_output;
          nid = (if TrailerScript.novel_id trailer_script \<noteq> [] then TrailerScript.novel_id trailer_script
                 else case NovelScenes.novel_id novel_scenes_output of
                        Some n \<Rightarrow> n | None \<Rightarrow> ''unknown_novel'');
          ttl = (if TrailerScript.title trailer_script \<noteq> [] then TrailerScript.title trailer_script
                 else case NovelScenes.title novel_scenes_output of
                        Some t \<Rightarrow> t | None \<Rightarrow> ''unknown_title'')
      in case beats_loop client scene_index nid ttl (beats trailer_script) 0 [] of
           Inl e \<Rightarrow> Inl e
         | Inr all_keyframes \<Rightarrow>
             Inr \<lparr> novel_id = nid, title = ttl, keyframes = all_keyframes \<rparr>)"

subsection \<open>Vocabulary for the statements about the index\<close>

text \<open>
  \<open>writes_key k chap_id s\<close>: the loop body, run on scene \<open>s\<close> of a chapter with id
  \<open>chap_id\<close>, assigns \<^verbatim>\<open>mapping[k]\<close>. \<open>no_later_write k ch ss2 chs2\<close>: none of the scenes
  \<open>ss2\<close> that follow in chapter \<open>ch\<close> and none of the scenes of the chapters \<open>chs2\<close>
  that follow assigns \<^verbatim>\<open>mapping[k]\<close>.
\<close>

definition writes_key :: "string \<Rightarrow> string \<Rightarrow> Scene \<Rightarrow> bool" where
  "writes_key k chap_id s \<longleftrightarrow>
     scene_id s \<noteq> [] \<and> (k = scene_id s \<or> (chap_id \<noteq> [] \<and> k = compound_id chap_id (scene_id s)))"

definition no_later_write :: "string \<Rightarrow> ChapterScenes \<Rightarrow> Scene list \<Rightarrow> ChapterScenes list \<Rightarrow> bool" where
  "no_later_write k ch ss2 chs2 \<longleftrightarrow>
     (\<forall>s' \<in> set ss2. \<not> writes_key k (chapter_id ch) s')
     \<and> (\<forall>ch' \<in> set chs2. \<forall>s' \<in> set (scenes ch'). \<not> writes_key k (chapter_id ch') s')"

subsection \<open>Concrete corpora\<close>

text \<open>
  \<open>corpus_a\<close> is Scenario A of the specification: chapter \<^verbatim>\<open>v01_ch001\<close> with three scenes
  and chapter \<^verbatim>\<open>v01_ch002\<close> with two. In \<open>clash_corpus\<close> and \<open>bare_clash_corpus\<close> a scene
  carries a \<^verbatim>\<open>scene_id\<close> that has the shape of a compound reference.
\<close>

definition mk_scene :: "string \<Rightarrow> string \<Rightarrow> string \<Rightarrow> Scene" where
  "mk_scene sid chap b =
     \<lparr> scene_id = sid, scene_chapter = chap, brief = b, original_text = [],
       Scene.characters = [], Scene.emotion_tags = [], scene_function = [] \<rparr>"

definition mk_chapter :: "string \<Rightarrow> Scene list \<Rightarrow> ChapterScenes" where
  "mk_chapter cid ss = \<lparr> chapter_id = cid, chapter_title = [], volume_name = None, scenes = ss \<rparr>"

definition chapter_one :: ChapterScenes where
  "chapter_one = mk_chapter ''v01_ch001''
     [mk_scene ''1'' ''v01_ch001'' ''arrival'', mk_scene ''2'' ''v01_ch001'' ''quarrel'',
      mk_scene ''3'' ''v01_ch001'' ''oath'']"

definition chapter_two :: ChapterScenes where
  "chapter_two = mk_chapter ''v01_ch002''
     [mk_scene ''1'' ''v01_ch002'' ''march'', mk_scene ''2'' ''v01_ch002'' ''siege'']"

definition corpus_a :: NovelScenes where
  "corpus_a = \<lparr> NovelScenes.novel_id = Some ''novel'', NovelScenes.title = Some ''Title'',
                 metadata = MetadataAbsent, chapters = [chapter_one, chapter_two] \<rparr>"

definition clash_corpus :: NovelScenes where
  "clash_corpus = \<lparr> NovelScenes.novel_id = None, NovelScenes.title = None,
       metadata = MetadataAbsent, chapters = [mk_chapter ''v01_ch001'' [mk_scene ''1'' ''v01_ch001'' ''arrival''],
                   mk_chapter ''v01_ch002'' [mk_scene ''v01_ch001_s1'' ''v01_ch002'' ''march'']] \<rparr>"

definition bare_clash_corpus :: NovelScenes where
  "bare_clash_corpus = \<lparr> NovelScenes.novel_id = None, NovelScenes.title = None,
       metadata = MetadataAbsent, chapters = [mk_chapter ''v01_ch001'' [mk_scene ''v01_ch003_s1'' ''v01_ch001'' ''arrival''],
                   mk_chapter ''v01_ch002'' [mk_scene ''v01_ch003_s1'' ''v01_ch002'' ''march''],
                   mk_chapter ''v01_ch003'' [mk_scene ''1'' ''v01_ch003'' ''siege'']] \<rparr>"

subsection \<open>Vocabulary for the statements about the Keyframe Deriver\<close>

text \<open>
  \<open>beat_contribution client scene_index nid ttl beat kfs\<close>: the keyframes \<open>kfs\<close> are what
  one iteration of the loop appends to \<^verbatim>\<open>all_keyframes\<close> for \<open>beat\<close>: nothing when the beat
  is skipped, and otherwise the keyframes of some successful service call for this beat
  and its resolved scenes, with \<^verbatim>\<open>characters\<close> replaced by the beat's.
\<close>

definition beat_contribution ::
  "keyframe_service \<Rightarrow> (string \<rightharpoonup> Scene) \<Rightarrow> string \<Rightarrow> string \<Rightarrow> TrailerBeat \<Rightarrow> Keyframe list \<Rightarrow> bool" where
  "beat_contribution client scene_index nid ttl beat kfs \<longleftrightarrow>
     (let sfb = scenes_for_beat scene_index (source_scenes beat) in
      if sfb = [] then kfs = []
      else \<exists>calls beat_kf.
             client calls \<lparr> req_beat = beat, req_scenes = sfb,
                             req_novel_id = nid, req_title = ttl \<rparr> = Inr beat_kf
           \<and> kfs = map (\<lambda>kf. kf\<lparr>characters := TrailerBeat.characters beat\<rparr>)
                       (BeatKeyframes.keyframes beat_kf))"

subsection \<open>A concrete run of the Keyframe Deriver\<close>

text \<open>
  A service that answers every request with one keyframe per scene it was given, each
  naming a character of its own. \<open>script_a\<close> has a beat that cites one scene of
  \<open>corpus_a\<close> and one scene id that is not in the corpus, and a beat that cites only the
  latter.
\<close>

definition scene_keyframe :: "TrailerBeat \<Rightarrow> Scene \<Rightarrow> Keyframe" where
  "scene_keyframe beat s =
     \<lparr> kf_id = ''KF_'' @ TrailerBeat.beat_id beat @ ''_01'',
       Keyframe.beat_id = TrailerBeat.beat_id beat,
       order_in_beat = 1,
       suggested_duration_sec = 2,
       shot_type = ''MS'',
       camera_angle = ''eye level'',
       composition = ''centered'',
       action = brief s,
       emotion_tags = [''tense''],
       characters = [''a stranger''],
       story_grounding = JObj [(''scene_ids'', JArr [JStr (scene_id s)])],
       dialogue_or_text = Some ''She returns'',
       image_prompt = brief s \<rparr>"

definition echo_service :: keyframe_service where
  "echo_service calls req =
     Inr \<lparr> BeatKeyframes.beat_id = TrailerBeat.beat_id (req_beat req),
           role = ''hook'',
           keyframes = map (scene_keyframe (req_beat req)) (req_scenes req) \<rparr>"

definition mk_beat :: "string \<Rightarrow> rat \<Rightarrow> string list \<Rightarrow> string list \<Rightarrow> TrailerBeat" where
  "mk_beat bid d srcs chars =
     \<lparr> TrailerBeat.beat_id = bid, role = hook, duration_sec = d, source_scenes = srcs,
       TrailerBeat.characters = chars, logline = [], visual_idea = [], key_moments = [],
       TrailerBeat.dialogue_or_text = [], spoiler_level = spoiler_none, reasoning = [] \<rparr>"

definition mk_script :: "int \<Rightarrow> TrailerBeat list \<Rightarrow> TrailerScript" where
  "mk_script m bs =
     \<lparr> TrailerScript.novel_id = ''novel'', TrailerScript.title = ''Title'', target_audience = [],
       platform = ''tiktok'', max_duration_sec = m, style_tags = [], beats = bs,
       notes_for_storyboard = [] \<rparr>"

definition beat_partial :: TrailerBeat where
  "beat_partial = mk_beat ''B1'' 6 [''v01_ch001_s1'', ''v01_ch001_s9''] [''Chu Yu'']"

definition beat_dangling :: TrailerBeat where
  "beat_dangling = mk_beat ''B2'' 8 [''v01_ch001_s9''] [''Wei Yun'']"

definition script_a :: TrailerScript where
  "script_a = mk_script 30 [beat_partial, beat_dangling]"

definition plan_a :: KeyframePlan where
  "plan_a = \<lparr> KeyframePlan.novel_id = ''novel'', title = ''Title'',
             keyframes = [(scene_keyframe beat_partial (mk_scene ''1'' ''v01_ch001'' ''arrival''))
                            \<lparr>characters := [''Chu Yu'']\<rparr>] \<rparr>"

section \<open>Trailer Beat Planner\<close>

text \<open>
  Source: \<^verbatim>\<open>src/backend/scripts/scene_to_trailer.py\<close>.

  \<^verbatim>\<open>generate_trailer_script_from_scenes\<close> builds one prompt from the serialised scenes,
  the novel id, the title, the platform and \<^verbatim>\<open>max_duration_sec\<close>, makes one generation
  call, parses the answer with \<^verbatim>\<open>TrailerScript.model_validate_json\<close> and writes the
  parsed script to the output file. The service stands for the call together with the
  parsing: it raises (\<open>ApiError\<close>), answers with text that the schema rejects
  (\<open>ValidationError\<close>), or answers with a \<^verbatim>\<open>TrailerScript\<close>. The result of the model is
  the script written to the file.
\<close>

record TrailerRequest =
  treq_scenes :: NovelScenes
  treq_novel_id :: string
  treq_title :: string
  treq_platform :: string
  treq_max_duration_sec :: int

type_synonym trailer_service = "TrailerRequest \<Rightarrow> error + TrailerScript"

text \<open>
  \<^verbatim>\<open>
  novel_id = novel_scenes.get("novel_id") or novel_scenes.get("metadata", {}).get("bookCode") \
             or novel_scenes.get("title") or "unknown_novel"
  title = novel_scenes.get("title") or "unknown_title"
  \<close>
  A \<^verbatim>\<open>metadata\<close> that is \<^verbatim>\<open>null\<close> makes \<^verbatim>\<open>.get("bookCode")\<close> raise.
\<close>

definition truthy :: "string option \<Rightarrow> bool" where
  "truthy v = (case v of None \<Rightarrow> False | Some s \<Rightarrow> s \<noteq> [])"

definition trailer_novel_id :: "NovelScenes \<Rightarrow> error + string" where
  "trailer_novel_id novel_scenes =
     (if truthy (NovelScenes.novel_id novel_scenes) then Inr (the (NovelScenes.novel_id novel_scenes))
      else
        let from_title = (if truthy (NovelScenes.title novel_scenes)
                          then the (NovelScenes.title novel_scenes) else ''unknown_novel'')
        in case metadata novel_scenes of
             MetadataNull \<Rightarrow> Inl AttributeError
           | MetadataAbsent \<Rightarrow> Inr from_title
           | MetadataDict book_code \<Rightarrow>
               if truthy book_code then Inr (the book_code) else Inr from_title)"

definition trailer_title :: "NovelScenes \<Rightarrow> string" where
  "trailer_title novel_scenes =
     (if truthy (NovelScenes.title novel_scenes) then the (NovelScenes.title novel_scenes)
      else ''unknown_title'')"

definition generate_trailer_script_from_scenes ::
  "trailer_service \<Rightarrow> NovelScenes \<Rightarrow> string \<Rightarrow> int \<Rightarrow> error + TrailerScript" where
  "generate_trailer_script_from_scenes client novel_scenes pf max_dur =
     (case trailer_novel_id novel_scenes of
        Inl e \<Rightarrow> Inl e
      | Inr nid \<Rightarrow>
          let ttl = trailer_title novel_scenes;
              prompt = \<lparr> treq_scenes = novel_scenes, treq_novel_id = nid, treq_title = ttl,
                         treq_platform = pf, treq_max_duration_sec = max_dur \<rparr>
          in case client prompt of
               Inl e \<Rightarrow> Inl e
             | Inr trailer_script \<Rightarrow> Inr trailer_script)"

text \<open>The total of the beat durations of a script.\<close>

definition total_duration :: "TrailerScript \<Rightarrow> rat" where
  "total_duration ts = sum_list (map duration_sec (beats ts))"

text \<open>
  Scenario C of the specification: beats of 6, 8, 10 and 4 seconds under a bound of 30,
  and the same with the third beat at 14 seconds. Each service answers every request
  with the one script.
\<close>

definition script_within :: TrailerScript where
  "script_within = mk_script 30
     [mk_beat ''B1'' 6 [''v01_ch001_s1''] [], mk_beat ''B2'' 8 [''v01_ch001_s2''] [],
      mk_beat ''B3'' 10 [''v01_ch001_s3''] [], mk_beat ''B4'' 4 [''v01_ch002_s1''] []]"

definition script_over :: TrailerScript where
  "script_over = mk_script 30
     [mk_beat ''B1'' 6 [''v01_ch001_s1''] [], mk_beat ''B2'' 8 [''v01_ch001_s2''] [],
      mk_beat ''B3'' 14 [''v01_ch001_s3''] [], mk_beat ''B4'' 4 [''v01_ch002_s1''] []]"

definition service_within :: trailer_service where
  "service_within prompt = Inr script_within"

definition service_over :: trailer_service where
  "service_over prompt = Inr script_over"

section \<open>Prompt Rewriter\<close>

text \<open>
  Source: \<^verbatim>\<open>src/backend/scripts/unify_keyframe_style.py\<close>, step 2 of \<^verbatim>\<open>main\<close> (the loop
  \<^verbatim>\<open>for kf in plan.keyframes\<close> and the construction of \<^verbatim>\<open>new_plan\<close>). Step 1 produces the
  style guide, or ends the run with an exception; the style guide is an argument here.
  The token counters of \<^verbatim>\<open>main\<close> are only printed and are left out. The field
  \<^verbatim>\<open>notes\<close> of \<^verbatim>\<open>GlobalStyle\<close> is named \<open>style_notes\<close>.
\<close>

record CharacterStyle =
  name :: string
  role :: string
  visual_description :: string

record GlobalStyle =
  rendering_style :: string
  lighting_style :: string
  color_palette :: string
  environment_style :: string
  style_notes :: string

record TrailerStyleGuide =
  novel_id :: string
  title :: string
  global_style :: GlobalStyle
  characters :: "CharacterStyle list"

text \<open>
  What the loop reads of a response of the generation service:
  \<^verbatim>\<open>resp.prompt_feedback.block_reason\<close> (\<open>None\<close> when there is no prompt feedback or no
  block reason), \<^verbatim>\<open>resp.text\<close> (named \<open>resp_text\<close> here) and \<^verbatim>\<open>resp.candidates\<close>, of
  which it reads \<^verbatim>\<open>candidates[0].content.parts[0].text\<close>. A candidate is \<open>None\<close> when its
  \<^verbatim>\<open>content\<close> is \<^verbatim>\<open>None\<close>, and otherwise the list of its parts.
\<close>

datatype Part = Part (part_text: "string option")

record Response =
  block_reason :: "string option"
  resp_text :: "string option"
  candidates :: "Part list option list"

text \<open>
  A call returns a response, raises \<^verbatim>\<open>ServerError\<close> (the flag says whether its message
  contains \<^verbatim>\<open>503\<close> or \<^verbatim>\<open>overloaded\<close>), or raises another exception. The request carries
  what \<^verbatim>\<open>build_rewrite_prompt\<close> builds the prompt from. The service is a function of the
  number of rewrite calls made before and of the request.
\<close>

datatype call_outcome = Returned Response | RaisedServerError bool | RaisedOther

record RewriteRequest =
  rw_style :: TrailerStyleGuide
  rw_keyframe :: Keyframe

type_synonym rewrite_service = "nat \<Rightarrow> RewriteRequest \<Rightarrow> call_outcome"

definition max_retries :: nat where
  "max_retries = 5"

text \<open>
  The retry loop for one keyframe:
  \<^verbatim>\<open>
      retry_count = 0
      content_blocked = False
      while retry_count < max_retries:
          try:
              resp = client.models.generate_content(model=model_name, contents=rewrite_prompt)
              if hasattr(resp, "prompt_feedback") and resp.prompt_feedback:
                  block_reason = getattr(resp.prompt_feedback, "block_reason", None)
                  if block_reason:
                      retry_count += 1
                      if retry_count >= max_retries:
                          ...
                          content_blocked = True
                          break
                      else:
                          time.sleep(delay)
                          continue
              break
          except ServerError as e:
              error_msg = str(e)
              if "503" in error_msg or "overloaded" in error_msg.lower():
                  retry_count += 1
                  if retry_count >= max_retries:
                      raise
                  time.sleep(delay)
              else:
                  raise
  \<close>
  The loop ends with \<^verbatim>\<open>content_blocked\<close> set, with a response that is not blocked, or by
  an exception. Leaving the loop through its condition would leave \<^verbatim>\<open>resp\<close> without a
  value for this keyframe; that exit is not reached from \<^verbatim>\<open>retry_count = 0\<close>.
\<close>

datatype attempt = ContentBlocked | Answered Response

function rewrite_attempts ::
  "rewrite_service \<Rightarrow> RewriteRequest \<Rightarrow> nat \<Rightarrow> nat \<Rightarrow> error + (attempt \<times> nat)" where
  "rewrite_attempts client rewrite_prompt calls retry_count =
     (if retry_count < max_retries then
        (case client calls rewrite_prompt of
           Returned resp \<Rightarrow>
             (case block_reason resp of
                Some reason \<Rightarrow>
                  if Suc retry_count \<ge> max_retries then Inr (ContentBlocked, Suc calls)
                  else rewrite_attempts client rewrite_prompt (Suc calls) (Suc retry_count)
              | None \<Rightarrow> Inr (Answered resp, Suc calls))
         | RaisedServerError overloaded \<Rightarrow>
             if overloaded then
               (if Suc retry_count \<ge> max_retries then Inl ApiError
                else rewrite_attempts client rewrite_prompt (Suc calls) (Suc retry_count))
             else Inl ApiError
         | RaisedOther \<Rightarrow> Inl ApiError)
      else Inl NameError)"
  by pat_completeness auto
termination
  by (relation "measure (\<lambda>(client, rewrite_prompt, calls, retry_count). max_retries - retry_count)")
     auto

declare rewrite_attempts.simps [simp del]

text \<open>
  The fallback read in the \<^verbatim>\<open>try\<close> block: the text of the first part of the first
  candidate, or the exception that the \<^verbatim>\<open>except Exception\<close> clause catches.
  \<^verbatim>\<open>
      if resp.candidates and len(resp.candidates) > 0:
          parts = resp.candidates[0].content.parts
          if parts and len(parts) > 0:
              new_prompt = parts[0].text
          else:
              raise ValueError(f"No parts in response for {kf.kf_id}")
      else:
          raise ValueError(f"No candidates in response for {kf.kf_id}")
  \<close>
\<close>

definition first_part_text :: "Response \<Rightarrow> error + string option" where
  "first_part_text resp =
     (case candidates resp of
        [] \<Rightarrow> Inl ValueError
      | candidate # _ \<Rightarrow>
          (case candidate of
             None \<Rightarrow> Inl AttributeError
           | Some [] \<Rightarrow> Inl ValueError
           | Some (part # _) \<Rightarrow> Inr (part_text part)))"

text \<open>\<^verbatim>\<open>new_prompt is None or not new_prompt.strip()\<close>\<close>

definition none_or_blank :: "string option \<Rightarrow> bool" where
  "none_or_blank new_prompt = (case new_prompt of None \<Rightarrow> True | Some p \<Rightarrow> strip p = [])"

text \<open>
  One iteration of \<^verbatim>\<open>for kf in plan.keyframes\<close>: the keyframe appended to
  \<^verbatim>\<open>new_keyframes\<close> and the new number of calls, or the exception that ends the run.
  \<^verbatim>\<open>
      if content_blocked:
          new_keyframes.append(kf)
          continue
      new_prompt = getattr(resp, "text", None)
      if new_prompt is None or not new_prompt.strip():
          try:
              ... (the fallback read)
          except Exception as e:
              new_keyframes.append(kf)
              continue
      updated = kf.model_copy(update={"image_prompt": new_prompt.strip()})
      new_keyframes.append(updated)
  \<close>
  \<^verbatim>\<open>new_prompt.strip()\<close> raises \<^verbatim>\<open>AttributeError\<close> when the fallback read has set
  \<^verbatim>\<open>new_prompt\<close> to \<^verbatim>\<open>None\<close>.
\<close>

definition rewrite_keyframe ::
  "rewrite_service \<Rightarrow> TrailerStyleGuide \<Rightarrow> Keyframe \<Rightarrow> nat \<Rightarrow> error + (Keyframe \<times> nat)" where
  "rewrite_keyframe client style_guide kf calls =
     (case rewrite_attempts client \<lparr> rw_style = style_guide, rw_keyframe = kf \<rparr> calls 0 of
        Inl e \<Rightarrow> Inl e
      | Inr (ContentBlocked, calls') \<Rightarrow> Inr (kf, calls')
      | Inr (Answered resp, calls') \<Rightarrow>
          (case (if none_or_blank (resp_text resp) then first_part_text resp
                 else Inr (resp_text resp)) of
             Inl e \<Rightarrow> Inr (kf, calls')
           | Inr new_prompt \<Rightarrow>
               (case new_prompt of
                  None \<Rightarrow> Inl AttributeError
                | Some p \<Rightarrow> Inr (kf\<lparr>image_prompt := strip p\<rparr>, calls'))))"

fun rewrite_loop ::
  "rewrite_service \<Rightarrow> TrailerStyleGuide \<Rightarrow> Keyframe list \<Rightarrow> nat \<Rightarrow> Keyframe list
     \<Rightarrow> error + Keyframe list" where
  "rewrite_loop client style_guide [] calls new_keyframes = Inr new_keyframes"
| "rewrite_loop client style_guide (kf # rest) calls new_keyframes =
     (case rewrite_keyframe client style_guide kf calls of
        Inl e \<Rightarrow> Inl e
      | Inr (updated, calls') \<Rightarrow>
          rewrite_loop client style_guide rest calls' (new_keyframes @ [updated]))"

text \<open>
  \<^verbatim>\<open>new_plan = KeyframePlan(novel_id=plan.novel_id, title=plan.title, keyframes=new_keyframes)\<close>,
  the plan written to \<^verbatim>\<open>keyframe_plan_styled.json\<close>.
\<close>

definition rewrite_plan ::
  "rewrite_service \<Rightarrow> TrailerStyleGuide \<Rightarrow> KeyframePlan \<Rightarrow> error + KeyframePlan" where
  "rewrite_plan client style_guide plan =
     (case rewrite_loop client style_guide (KeyframePlan.keyframes plan) 0 [] of
        Inl e \<Rightarrow> Inl e
      | Inr new_keyframes \<Rightarrow>
          Inr \<lparr> KeyframePlan.novel_id = KeyframePlan.novel_id plan,
                KeyframePlan.title = KeyframePlan.title plan,
                KeyframePlan.keyframes = new_keyframes \<rparr>)"

subsection \<open>Concrete runs of the Prompt Rewriter\<close>

text \<open>
  A plan of two keyframes and four services. \<open>blocked_service\<close> blocks the first five
  calls and then answers. \<open>empty_service\<close> answers the first call with an empty text and
  no candidates. \<open>empty_part_service\<close> answers the first call with an empty text whose
  first candidate has one part with the same empty text. \<open>none_part_service\<close> answers
  the first call without text, the first part of the first candidate having no text
  either. All answer later calls with a text.
\<close>

definition style_a :: TrailerStyleGuide where
  "style_a = \<lparr> TrailerStyleGuide.novel_id = ''novel'', TrailerStyleGuide.title = ''Title'',
       global_style = \<lparr> rendering_style = ''painted illustration'', lighting_style = ''warm'',
                        color_palette = ''reds'', environment_style = ''courtyards'',
                        style_notes = [] \<rparr>,
       TrailerStyleGuide.characters = [] \<rparr>"

definition kf_one :: Keyframe where
  "kf_one = scene_keyframe beat_partial (mk_scene ''1'' ''v01_ch001'' ''arrival'')"

definition kf_two :: Keyframe where
  "kf_two = scene_keyframe beat_dangling (mk_scene ''2'' ''v01_ch002'' ''siege'')"

definition plan_two :: KeyframePlan where
  "plan_two = \<lparr> KeyframePlan.novel_id = ''novel'', KeyframePlan.title = ''Title'',
                 KeyframePlan.keyframes = [kf_one, kf_two] \<rparr>"

definition good_response :: Response where
  "good_response = \<lparr> block_reason = None, resp_text = Some '' painted siege '',
                       candidates = [Some [Part (Some '' painted siege '')]] \<rparr>"

definition blocked_service :: rewrite_service where
  "blocked_service calls req =
     (if calls < 5
      then Returned \<lparr> block_reason = Some ''SAFETY'', resp_text = None, candidates = [] \<rparr>
      else Returned good_response)"

definition empty_service :: rewrite_service where
  "empty_service calls req =
     (if calls = 0
      then Returned \<lparr> block_reason = None, resp_text = Some [], candidates = [] \<rparr>
      else Returned good_response)"

definition empty_part_service :: rewrite_service where
  "empty_part_service calls req =
     (if calls = 0
      then Returned \<lparr> block_reason = None, resp_text = Some [],
                      candidates = [Some [Part (Some [])]] \<rparr>
      else Returned good_response)"

definition none_part_service :: rewrite_service where
  "none_part_service calls req =
     (if calls = 0
      then Returned \<lparr> block_reason = None, resp_text = None,
                      candidates = [Some [Part None]] \<rparr>
      else Returned good_response)"

text \<open>The styled plan of the runs in which the first keyframe keeps its prompt.\<close>

definition styled_two :: KeyframePlan where
  "styled_two = plan_two\<lparr>KeyframePlan.keyframes := [kf_one, kf_two\<lparr>image_prompt := ''painted siege''\<rparr>]\<rparr>"

section \<open>World Profile Synthesizer\<close>

text \<open>
  Source: \<^verbatim>\<open>src/backend/scripts/novel_world_profile.py\<close>.

  The novel file is a dict with \<^verbatim>\<open>name\<close>, \<^verbatim>\<open>title\<close>, \<^verbatim>\<open>summary\<close> and \<^verbatim>\<open>volumes\<close>; a volume
  has \<^verbatim>\<open>chapters\<close>; a chapter has \<^verbatim>\<open>name\<close>, \<^verbatim>\<open>chapter_id\<close> and \<^verbatim>\<open>content\<close>. A string field
  is empty when its key is absent.
\<close>

record NovelChapter =
  name :: string
  chapter_id :: string
  content :: string

record NovelVolume =
  chapters :: "NovelChapter list"

record Novel =
  name :: string
  title :: string
  summary :: string
  volumes :: "NovelVolume list"

record ChapterWorldHints =
  novel_name :: string
  chapter_id :: string
  time_and_era :: string
  geography_and_region :: string
  social_structure :: string
  tech_and_warfare :: string
  typical_locales :: "string list"
  clothing_and_wardrobe :: "(string \<times> string) list"
  color_and_mood :: string
  visual_motifs :: "string list"
  global_style :: string

record WorldProfile =
  novel_name :: string
  world_summary :: string
  era_label :: string
  region_style :: string
  tech_level :: string
  social_structure :: string
  typical_locales :: "string list"
  wardrobe_guide :: "(string \<times> string) list"
  color_and_mood :: string
  visual_motifs :: "string list"
  global_style :: string

text \<open>
  The two generation calls, each together with the parsing of its answer
  (\<^verbatim>\<open>model_validate_json\<close>): a call raises, is answered with text that the schema rejects,
  or yields a record. A request carries what the prompt is built from. The service of
  stage one is a function of the number of calls made before and of the request.
\<close>

record HintsRequest =
  hreq_novel_name :: string
  hreq_chapter_id :: string
  hreq_chapter_text :: string

record ProfileRequest =
  preq_novel_name :: string
  preq_novel_summary :: string
  preq_hints_list :: "ChapterWorldHints list"

type_synonym hints_service = "nat \<Rightarrow> HintsRequest \<Rightarrow> error + ChapterWorldHints"

type_synonym profile_service = "ProfileRequest \<Rightarrow> error + WorldProfile"

text \<open>
  \<^verbatim>\<open>extract_chapter_world_hints\<close>: one call, then
  \<^verbatim>\<open>if not hints.novel_name: hints.novel_name = novel_name\<close>.
\<close>

definition extract_chapter_world_hints ::
  "hints_service \<Rightarrow> string \<Rightarrow> string \<Rightarrow> string \<Rightarrow> nat \<Rightarrow> error + ChapterWorldHints" where
  "extract_chapter_world_hints client nname cid chapter_text calls =
     (case client calls \<lparr> hreq_novel_name = nname, hreq_chapter_id = cid,
                           hreq_chapter_text = chapter_text \<rparr> of
        Inl e \<Rightarrow> Inl e
      | Inr hints \<Rightarrow>
          Inr (if ChapterWorldHints.novel_name hints = []
               then hints\<lparr>ChapterWorldHints.novel_name := nname\<rparr> else hints))"

text \<open>
  \<^verbatim>\<open>build_world_profile_from_hints\<close>: one call on the whole \<^verbatim>\<open>hints_list\<close>, then
  \<^verbatim>\<open>if not profile.novel_name: profile.novel_name = novel_name\<close>.
\<close>

definition build_world_profile_from_hints ::
  "profile_service \<Rightarrow> string \<Rightarrow> string \<Rightarrow> ChapterWorldHints list \<Rightarrow> error + WorldProfile" where
  "build_world_profile_from_hints client nname novel_summary hints_list =
     (case client \<lparr> preq_novel_name = nname, preq_novel_summary = novel_summary,
                     preq_hints_list = hints_list \<rparr> of
        Inl e \<Rightarrow> Inl e
      | Inr profile \<Rightarrow>
          Inr (if WorldProfile.novel_name profile = []
               then profile\<lparr>WorldProfile.novel_name := nname\<rparr> else profile))"

text \<open>\<^verbatim>\<open>chapter_id = ch.get("name") or ch.get("chapter_id") or "Unknown chapter"\<close>\<close>

definition chapter_label :: "NovelChapter \<Rightarrow> string" where
  "chapter_label ch =
     (if NovelChapter.name ch \<noteq> [] then NovelChapter.name ch
      else if NovelChapter.chapter_id ch \<noteq> [] then NovelChapter.chapter_id ch
      else ''Unknown chapter'')"

text \<open>
  Stage one, the loop \<^verbatim>\<open>for ch in chapters\<close> with the accumulator \<^verbatim>\<open>hints_list\<close>:
  \<^verbatim>\<open>
      chapter_text = ch.get("content", "")
      hints = extract_chapter_world_hints(client, model_name, novel_name, chapter_id, chapter_text)
      hints_list.append(hints)
  \<close>
\<close>

fun hints_loop ::
  "hints_service \<Rightarrow> string \<Rightarrow> NovelChapter list \<Rightarrow> nat \<Rightarrow> ChapterWorldHints list
     \<Rightarrow> error + ChapterWorldHints list" where
  "hints_loop client nname [] calls hints_list = Inr hints_list"
| "hints_loop client nname (ch # rest) calls hints_list =
     (case extract_chapter_world_hints client nname (chapter_label ch) (content ch) calls of
        Inl e \<Rightarrow> Inl e
      | Inr hints \<Rightarrow> hints_loop client nname rest (Suc calls) (hints_list @ [hints]))"

text \<open>
  \<^verbatim>\<open>
  def build_world_profile_two_stage(novel_path, output_path, model_name="gemini-2.5-flash",
                                    max_chapters: int | None = 20) -> None:
      data = json.loads(novel_path.read_text(encoding="utf-8"))
      novel_name = data.get("name") or data.get("title") or "Unknown novel"
      novel_summary = data.get("summary", "")
      volumes = data.get("volumes", [])
      if not volumes:
          raise ValueError(...)
      chapters = volumes[0].get("chapters", [])
      if not chapters:
          raise ValueError(...)
      if max_chapters is not None:
          chapters = chapters[:max_chapters]
      hints_list = []
      for ch in chapters: ...
      world_profile = build_world_profile_from_hints(client, model_name, novel_name,
                                                     novel_summary, hints_list)
      output_path.write_text(world_profile.model_dump_json(...))
  \<close>
  The result is the profile written to the output file.
\<close>

definition scanned_chapters :: "NovelVolume \<Rightarrow> int option \<Rightarrow> NovelChapter list" where
  "scanned_chapters volume max_chapters =
     (case max_chapters of
        None \<Rightarrow> NovelVolume.chapters volume
      | Some m \<Rightarrow> slice_upto (NovelVolume.chapters volume) m)"

definition world_novel_name :: "Novel \<Rightarrow> string" where
  "world_novel_name data =
     (if Novel.name data \<noteq> [] then Novel.name data
      else if Novel.title data \<noteq> [] then Novel.title data
      else ''Unknown novel'')"

definition build_world_profile_two_stage ::
  "hints_service \<Rightarrow> profile_service \<Rightarrow> Novel \<Rightarrow> int option \<Rightarrow> error + WorldProfile" where
  "build_world_profile_two_stage hints_client profile_client data max_chapters =
     (let nname = world_novel_name data;
          novel_summary = summary data
      in case volumes data of
           [] \<Rightarrow> Inl ValueError
         | first_volume # _ \<Rightarrow>
             if NovelVolume.chapters first_volume = [] then Inl ValueError
             else
               (case hints_loop hints_client nname
                       (scanned_chapters first_volume max_chapters) 0 [] of
                  Inl e \<Rightarrow> Inl e
                | Inr hints_list \<Rightarrow>
                    build_world_profile_from_hints profile_client nname novel_summary hints_list))"

subsection \<open>A concrete run of the World Profile Synthesizer\<close>

text \<open>
  A novel of two volumes, with two chapters and one chapter. The service of stage one
  answers with hints that carry the chapter id of the request; the service of stage two
  answers with a profile whose \<^verbatim>\<open>typical_locales\<close> are the chapter ids of the hints it was
  given, so that the profile shows which hints the synthesis call received.
\<close>

definition mk_novel_chapter :: "string \<Rightarrow> NovelChapter" where
  "mk_novel_chapter n = \<lparr> NovelChapter.name = n, NovelChapter.chapter_id = [], content = ''text'' \<rparr>"

definition two_volume_novel :: Novel where
  "two_volume_novel =
     \<lparr> Novel.name = ''novel'', Novel.title = [], summary = [],
       volumes = [\<lparr> NovelVolume.chapters = [mk_novel_chapter ''Chapter 1'', mk_novel_chapter ''Chapter 2''] \<rparr>,
                  \<lparr> NovelVolume.chapters = [mk_novel_chapter ''Chapter 3''] \<rparr>] \<rparr>"

definition echo_hints :: "string \<Rightarrow> string \<Rightarrow> ChapterWorldHints" where
  "echo_hints nname cid =
     \<lparr> ChapterWorldHints.novel_name = nname, ChapterWorldHints.chapter_id = cid,
       time_and_era = [], geography_and_region = [], ChapterWorldHints.social_structure = [],
       tech_and_warfare = [], ChapterWorldHints.typical_locales = [], clothing_and_wardrobe = [],
       ChapterWorldHints.color_and_mood = [], ChapterWorldHints.visual_motifs = [],
       ChapterWorldHints.global_style = [] \<rparr>"

definition echo_profile :: "string \<Rightarrow> string list \<Rightarrow> WorldProfile" where
  "echo_profile nname cids =
     \<lparr> WorldProfile.novel_name = nname, world_summary = [], era_label = [], region_style = [],
       tech_level = [], WorldProfile.social_structure = [], WorldProfile.typical_locales = cids,
       wardrobe_guide = [], WorldProfile.color_and_mood = [], WorldProfile.visual_motifs = [],
       WorldProfile.global_style = [] \<rparr>"

definition echo_hints_service :: hints_service where
  "echo_hints_service calls req = Inr (echo_hints (hreq_novel_name req) (hreq_chapter_id req))"

definition echo_profile_service :: profile_service where
  "echo_profile_service req =
     Inr (echo_profile (preq_novel_name req)
            (map ChapterWorldHints.chapter_id (preq_hints_list req)))"

section \<open>Properties of the Character Aggregator\<close>

lemma score_chu_yu: "score_character chu_yu = 19"
  by (simp add: score_character_def chu_yu_def fcard_finsert_if)

lemma score_wei_yun: "score_character wei_yun = 5"
  by (simp add: score_character_def wei_yun_def fcard_finsert_if)

text \<open>
  Claim C3. The importance score of an aggregated entry is three times its
  main-protagonist count plus twice its secondary-lead count plus its supporting count
  plus one half of the number of distinct chapters seen; the minor count does not enter
  the score; an entry with 5 main-protagonist mentions, no secondary-lead mention,
  1 supporting mention and 6 distinct chapters scores exactly 19.
\<close>

theorem score_character_formula:
  "score_character entry =
       3 * of_nat (main_protagonist (importance_counts entry))
     + 2 * of_nat (secondary_lead (importance_counts entry))
     + 1 * of_nat (supporting (importance_counts entry))
     + (1 / 2) * of_nat (fcard (chapters_seen entry))
   \<and> score_character (entry\<lparr>importance_counts := (importance_counts entry)\<lparr>minor := m\<rparr>\<rparr>)
       = score_character entry
   \<and> (main_protagonist (importance_counts entry) = 5
        \<and> secondary_lead (importance_counts entry) = 0
        \<and> supporting (importance_counts entry) = 1
        \<and> fcard (chapters_seen entry) = 6
      \<longrightarrow> score_character entry = 19)"
  by (simp add: score_character_def Let_def)

theorem score_character_formula_witness:
  "main_protagonist (importance_counts chu_yu) = 5
   \<and> secondary_lead (importance_counts chu_yu) = 0
   \<and> supporting (importance_counts chu_yu) = 1
   \<and> fcard (chapters_seen chu_yu) = 6
   \<and> score_character chu_yu = 19"
  using score_character_formula [of chu_yu 0]
  by (simp add: chu_yu_def fcard_finsert_if)

subsection \<open>Selection of the main characters\<close>

text \<open>
  Scenario B run through the aggregation: one entry, named by the trimmed canonical
  name, with the counts 5, 0, 1, 0, six chapters seen and the score 19; it is selected
  with \<^verbatim>\<open>max_main_chars = 3\<close> and \<^verbatim>\<open>min_score = 3.0\<close>.
\<close>

lemma strip_chu_yu: "strip '' Chu Yu'' = ''Chu Yu''"
  by (simp add: strip_def drop_spaces.simps space_tokens_def ascii_spaces_def wide_spaces_def)

lemma scenario_b_counts:
  "map fst (aggregate_characters scenario_b) = [''Chu Yu'']
   \<and> map (importance_counts \<circ> snd) (aggregate_characters scenario_b)
       = [\<lparr> main_protagonist = 5, secondary_lead = 0, supporting = 1, minor = 0 \<rparr>]
   \<and> map (fcard \<circ> chapters_seen \<circ> snd) (aggregate_characters scenario_b) = [6]
   \<and> map (score_character \<circ> snd) (aggregate_characters scenario_b) = [19]"
  by (simp add: aggregate_characters_def scenario_b_def mk_result_def mk_mention_def
      strip_chu_yu record_mention_def new_entry_def count_importance_def
      score_character_def fcard_finsert_if Let_def)

lemma scenario_b_selected:
  "map fst (select_main_characters (aggregate_characters scenario_b) 3 3) = [''Chu Yu'']"
  by (simp add: aggregate_characters_def scenario_b_def mk_result_def mk_mention_def
      strip_chu_yu record_mention_def new_entry_def count_importance_def
      score_character_def fcard_finsert_if Let_def select_main_characters_def
      list_sort_reverse_def slice_upto_def item_score_def)

lemma scored_loop_append:
  "scored_loop char_map scored = scored @ scored_items char_map"
  by (induction char_map arbitrary: scored) (auto simp: scored_items_def)

lemma list_sort_reverse_mset: "mset (list_sort_reverse key xs) = mset xs"
  by (simp add: list_sort_reverse_def)

lemma list_sort_reverse_sorted:
  "sorted_wrt (\<lambda>a b. key a \<ge> key b) (list_sort_reverse key xs)"
proof -
  have "sorted (map key (sort_key key (rev xs)))"
    by (rule sorted_sort_key)
  then have "sorted_wrt (\<lambda>a b. key a \<le> key b) (sort_key key (rev xs))"
    by (simp add: sorted_map)
  then show ?thesis
    by (simp add: list_sort_reverse_def sorted_wrt_rev)
qed

lemma list_sort_reverse_stable:
  "filter (\<lambda>x. key x = k) (list_sort_reverse key xs) = filter (\<lambda>x. key x = k) xs"
proof -
  have "filter (\<lambda>x. key x = k) (sort_key key (rev xs)) = filter (\<lambda>x. key x = k) (rev xs)"
    by (rule sort_key_stable)
  then show ?thesis
    by (simp add: list_sort_reverse_def rev_filter [symmetric])
qed

lemma stable_descending_sort:
  "stable_descending xs (list_sort_reverse item_score xs)"
  unfolding stable_descending_def
  using list_sort_reverse_mset list_sort_reverse_sorted list_sort_reverse_stable
  by blast

text \<open>
  A run with a tie: the two entries of score 5 stay in input order behind the entry of
  score 19, and the slice keeps the first two items.
\<close>

lemma select_main_characters_tie:
  "select_main_characters tie_map 2 3 = [(''Chu Yu'', 19, chu_yu), (''Wei Yun'', 5, wei_yun)]
   \<and> select_main_characters tie_map 3 3
       = [(''Chu Yu'', 19, chu_yu), (''Wei Yun'', 5, wei_yun), (''Wei Qing'', 5, wei_yun)]
   \<and> select_main_characters tie_map 3 6 = [(''Chu Yu'', 19, chu_yu)]"
  by (simp add: select_main_characters_def tie_map_def list_sort_reverse_def slice_upto_def
      item_score_def score_chu_yu score_wei_yun)

text \<open>
  The bound is a count. The slice \<^verbatim>\<open>scored[:max_main_chars]\<close> is also defined for a
  negative number, which no caller passes (the default is 3, \<^verbatim>\<open>main\<close> passes 10): it then
  counts from the end of the list.
\<close>

lemma select_main_characters_negative_bound:
  "select_main_characters [(''Wei Yun'', wei_yun), (''Chu Yu'', chu_yu)] (- 1) 3
     = [(''Chu Yu'', 19, chu_yu)]"
  by (simp add: select_main_characters_def list_sort_reverse_def slice_upto_def
      item_score_def score_chu_yu score_wei_yun)

text \<open>
  Claim C4. For every aggregated character map, every \<^verbatim>\<open>min_score\<close> and every count
  \<^verbatim>\<open>max_main_chars\<close>, the result of \<^verbatim>\<open>select_main_characters\<close> is obtained from the scored
  entries of the map by sorting them in descending order of score with ties in input
  order (a stable sort: the same items, scores descending, and for every score the
  items of that score in their input order), removing every item whose score is
  strictly below \<^verbatim>\<open>min_score\<close>, and keeping the first \<^verbatim>\<open>max_main_chars\<close> items; the result
  has at most \<^verbatim>\<open>max_main_chars\<close> elements.
\<close>

theorem select_main_characters_spec:
  assumes "0 \<le> max_main_chars"
  shows "\<exists>sorted_items.
           stable_descending (scored_items char_map) sorted_items
         \<and> select_main_characters char_map max_main_chars min_score
             = take (nat max_main_chars)
                 (filter (\<lambda>item. \<not> item_score item < min_score) sorted_items)
         \<and> int (length (select_main_characters char_map max_main_chars min_score))
             \<le> max_main_chars"
proof -
  let ?S = "list_sort_reverse item_score (scored_items char_map)"
  let ?F = "filter (\<lambda>item. \<not> item_score item < min_score) ?S"
  have "stable_descending (scored_items char_map) ?S"
    by (rule stable_descending_sort)
  moreover have sel:
    "select_main_characters char_map max_main_chars min_score = take (nat max_main_chars) ?F"
    using assms
    by (simp add: select_main_characters_def scored_loop_append slice_upto_def not_less)
  moreover have "int (length (select_main_characters char_map max_main_chars min_score))
      \<le> max_main_chars"
    using assms by (simp add: sel)
  ultimately show ?thesis by blast
qed

theorem select_main_characters_spec_witness:
  "(0::int) \<le> 2
   \<and> (\<exists>sorted_items.
           stable_descending (scored_items tie_map) sorted_items
         \<and> select_main_characters tie_map 2 3
             = take (nat 2) (filter (\<lambda>item. \<not> item_score item < 3) sorted_items)
         \<and> int (length (select_main_characters tie_map 2 3)) \<le> 2)"
  using select_main_characters_spec [of 2 tie_map 3] by simp

section \<open>Properties of the scene index\<close>

text \<open>The index is the list of assignments, read from the last one backwards.\<close>

lemma index_scene_loop_step:
  "index_scene_loop chap_id (s # ss) m
     = index_scene_loop chap_id ss (m ++ map_of (rev (scene_writes chap_id s)))"
  by (simp add: scene_writes_def Let_def)

lemma index_scene_loop_writes:
  "index_scene_loop chap_id ss m = m ++ map_of (rev (concat (map (scene_writes chap_id) ss)))"
proof (induction ss arbitrary: m)
  case Nil
  then show ?case by simp
next
  case (Cons s ss)
  have "m ++ map_of (rev (concat (map (scene_writes chap_id) (s # ss))))
        = (m ++ map_of (rev (scene_writes chap_id s)))
            ++ map_of (rev (concat (map (scene_writes chap_id) ss)))"
    by (simp only: list.map concat.simps rev_append map_of_append map_add_assoc)
  then show ?case
    by (simp only: index_scene_loop_step Cons.IH)
qed

lemma index_chapter_loop_writes:
  "index_chapter_loop chs m = m ++ map_of (rev (concat (map chapter_writes chs)))"
proof (induction chs arbitrary: m)
  case Nil
  then show ?case by simp
next
  case (Cons ch chs)
  have "m ++ map_of (rev (concat (map chapter_writes (ch # chs))))
        = (m ++ map_of (rev (chapter_writes ch))) ++ map_of (rev (concat (map chapter_writes chs)))"
    by (simp only: list.map concat.simps rev_append map_of_append map_add_assoc)
  moreover have "index_scene_loop (ChapterScenes.chapter_id ch) (scenes ch) m = m ++ map_of (rev (chapter_writes ch))"
    by (simp add: index_scene_loop_writes chapter_writes_def)
  then have "index_chapter_loop (ch # chs) m
        = (m ++ map_of (rev (chapter_writes ch))) ++ map_of (rev (concat (map chapter_writes chs)))"
    by (simp add: Cons.IH)
  ultimately show ?case by simp
qed

lemma index_scenes_by_id_writes:
  "index_scenes_by_id nso = map_of (rev (index_writes nso))"
  by (simp add: index_scenes_by_id_def index_writes_def index_chapter_loop_writes)

lemma fst_scene_writes:
  "k \<in> fst ` set (scene_writes chap_id s) \<longleftrightarrow> writes_key k chap_id s"
  by (auto simp: scene_writes_def writes_key_def)

lemma scene_writes_same_scene:
  "(k, s') \<in> set (scene_writes chap_id s) \<Longrightarrow> s' = s"
  by (auto simp: scene_writes_def split: if_splits)

lemma map_of_rev_last_block:
  assumes "ws = pre @ mid @ post"
    and "k \<notin> fst ` set post"
    and "k \<in> fst ` set mid"
    and "\<And>k' v. (k', v) \<in> set mid \<Longrightarrow> v = s"
  shows "map_of (rev ws) k = Some s"
proof -
  have post: "map_of (rev post) k = None"
    using assms(2) by (simp add: map_of_eq_None_iff)
  have "map_of (rev mid) k \<noteq> None"
    using assms(3) by (simp add: map_of_eq_None_iff)
  then obtain v where v: "map_of (rev mid) k = Some v"
    by blast
  then have "(k, v) \<in> set mid"
    using map_of_SomeD by fastforce
  then have "v = s"
    by (rule assms(4))
  with v post show ?thesis
    using assms(1) by (simp add: map_of_append map_add_def)
qed

lemma no_write_in_scenes:
  "\<forall>s' \<in> set ss. \<not> writes_key k chap_id s'
   \<Longrightarrow> k \<notin> fst ` set (concat (map (scene_writes chap_id) ss))"
  by (induction ss) (auto simp: fst_scene_writes [symmetric] image_Un)

lemma no_write_in_chapters:
  "\<forall>ch' \<in> set chs. \<forall>s' \<in> set (scenes ch'). \<not> writes_key k (ChapterScenes.chapter_id ch') s'
   \<Longrightarrow> k \<notin> fst ` set (concat (map chapter_writes chs))"
proof (induction chs)
  case Nil
  then show ?case by simp
next
  case (Cons ch chs)
  have "k \<notin> fst ` set (chapter_writes ch)"
    unfolding chapter_writes_def using Cons.prems by (intro no_write_in_scenes) simp
  moreover have "k \<notin> fst ` set (concat (map chapter_writes chs))"
    using Cons by simp
  ultimately show ?case by (simp add: image_Un)
qed

text \<open>
  Last writer wins: a key that a scene assigns, and that no later scene assigns, maps to
  that scene.
\<close>

lemma index_last_writer:
  assumes chs: "NovelScenes.chapters nso = chs1 @ ch # chs2"
    and ss: "scenes ch = ss1 @ s # ss2"
    and wk: "writes_key k (ChapterScenes.chapter_id ch) s"
    and later: "no_later_write k ch ss2 chs2"
  shows "index_scenes_by_id nso k = Some s"
proof -
  let ?c = "ChapterScenes.chapter_id ch"
  let ?pre = "concat (map chapter_writes chs1) @ concat (map (scene_writes ?c) ss1)"
  let ?mid = "scene_writes ?c s"
  let ?post = "concat (map (scene_writes ?c) ss2) @ concat (map chapter_writes chs2)"
  have "chapter_writes ch = concat (map (scene_writes ?c) ss1) @ ?mid @ concat (map (scene_writes ?c) ss2)"
    by (simp add: chapter_writes_def ss)
  then have ws: "index_writes nso = ?pre @ ?mid @ ?post"
    by (simp add: index_writes_def chs)
  have "k \<notin> fst ` set (concat (map (scene_writes ?c) ss2))"
    using later by (intro no_write_in_scenes) (simp add: no_later_write_def)
  moreover have "k \<notin> fst ` set (concat (map chapter_writes chs2))"
    using later by (intro no_write_in_chapters) (simp add: no_later_write_def)
  ultimately have post: "k \<notin> fst ` set ?post"
    by (simp add: image_Un)
  have mid: "k \<in> fst ` set ?mid"
    using wk by (simp add: fst_scene_writes)
  have "map_of (rev (index_writes nso)) k = Some s"
    using ws post mid
  proof (rule map_of_rev_last_block)
    fix k' v
    assume "(k', v) \<in> set ?mid"
    then show "v = s" by (rule scene_writes_same_scene)
  qed
  then show ?thesis
    by (simp add: index_scenes_by_id_writes)
qed

lemma index_corpus_a:
  "index_scenes_by_id corpus_a ''v01_ch001_s1'' = Some (mk_scene ''1'' ''v01_ch001'' ''arrival'')"
  "index_scenes_by_id corpus_a ''v01_ch001_s3'' = Some (mk_scene ''3'' ''v01_ch001'' ''oath'')"
  "index_scenes_by_id corpus_a ''v01_ch001_s9'' = None"
  "index_scenes_by_id corpus_a ''1'' = Some (mk_scene ''1'' ''v01_ch002'' ''march'')"
  "index_scenes_by_id corpus_a ''3'' = Some (mk_scene ''3'' ''v01_ch001'' ''oath'')"
  by (simp_all add: index_scenes_by_id_def corpus_a_def chapter_one_def chapter_two_def
      mk_chapter_def mk_scene_def compound_id_def Let_def)

text \<open>
  Claim C5, as stated, at a corpus where a key is present in both forms: the first
  chapter's scene \<^verbatim>\<open>1\<close> has the compound key \<^verbatim>\<open>v01_ch001_s1\<close>, and a scene of the second
  chapter has that same string as its bare \<^verbatim>\<open>scene_id\<close>. The lookup returns the scene of
  the second chapter, the bare-form match, and the compound key of the first scene does
  not map to that scene.
\<close>

theorem index_scenes_by_id_prefers_last_counterexample:
  "compound_id ''v01_ch001'' ''1'' = ''v01_ch001_s1''
   \<and> index_scenes_by_id clash_corpus ''v01_ch001_s1''
       = Some (mk_scene ''v01_ch001_s1'' ''v01_ch002'' ''march'')
   \<and> index_scenes_by_id clash_corpus (compound_id ''v01_ch001'' ''1'')
       \<noteq> Some (mk_scene ''1'' ''v01_ch001'' ''arrival'')"
  by (simp add: index_scenes_by_id_def clash_corpus_def mk_chapter_def mk_scene_def compound_id_def Let_def)

text \<open>
  Claim C5, amended. Every scene with a non-empty \<^verbatim>\<open>scene_id\<close> is stored under its
  compound key (when the \<^verbatim>\<open>chapter_id\<close> of its chapter is non-empty) and under its bare
  \<^verbatim>\<open>scene_id\<close>, in one dict where a later assignment replaces an earlier one: the
  compound key of a scene maps to that scene provided no scene processed later assigns
  the same key, and likewise for its bare \<^verbatim>\<open>scene_id\<close>. Neither form is preferred.
\<close>

theorem index_scenes_by_id_key_forms:
  assumes "NovelScenes.chapters nso = chs1 @ ch # chs2"
    and "scenes ch = ss1 @ s # ss2"
    and "scene_id s \<noteq> []"
  shows "(ChapterScenes.chapter_id ch \<noteq> []
          \<and> no_later_write (compound_id (ChapterScenes.chapter_id ch) (scene_id s)) ch ss2 chs2
          \<longrightarrow> index_scenes_by_id nso (compound_id (ChapterScenes.chapter_id ch) (scene_id s)) = Some s)
       \<and> (no_later_write (scene_id s) ch ss2 chs2
          \<longrightarrow> index_scenes_by_id nso (scene_id s) = Some s)"
  using assms by (auto intro: index_last_writer simp: writes_key_def)

theorem index_scenes_by_id_key_forms_witness:
  "index_scenes_by_id corpus_a (compound_id ''v01_ch001'' ''3'') = Some (mk_scene ''3'' ''v01_ch001'' ''oath'')
   \<and> index_scenes_by_id corpus_a ''3'' = Some (mk_scene ''3'' ''v01_ch001'' ''oath'')"
  using index_scenes_by_id_key_forms [of corpus_a "[]" chapter_one "[chapter_two]"
      "[mk_scene ''1'' ''v01_ch001'' ''arrival'', mk_scene ''2'' ''v01_ch001'' ''quarrel'']"
      "mk_scene ''3'' ''v01_ch001'' ''oath''" "[]"]
  by (simp add: corpus_a_def chapter_one_def chapter_two_def mk_chapter_def mk_scene_def
      no_later_write_def writes_key_def compound_id_def)

text \<open>
  Claim C10, as stated, at a corpus of three chapters: the first two each contain a
  scene with the bare \<^verbatim>\<open>scene_id\<close> \<^verbatim>\<open>v01_ch003_s1\<close>, and the third chapter's scene \<^verbatim>\<open>1\<close>
  has that string as its compound key. The bare key maps to the scene of the third
  chapter, not to the scene of the later of the two chapters that contain the bare id.
\<close>

theorem index_scenes_by_id_bare_counterexample:
  "index_scenes_by_id bare_clash_corpus ''v01_ch003_s1'' = Some (mk_scene ''1'' ''v01_ch003'' ''siege'')
   \<and> index_scenes_by_id bare_clash_corpus ''v01_ch003_s1''
       \<noteq> Some (mk_scene ''v01_ch003_s1'' ''v01_ch002'' ''march'')"
  by (simp add: index_scenes_by_id_def bare_clash_corpus_def mk_chapter_def mk_scene_def compound_id_def Let_def)

text \<open>
  Claim C10, amended. When two distinct chapters each contain a scene with the same
  non-empty bare \<^verbatim>\<open>scene_id\<close>, the index maps that bare key to the scene of the later
  chapter (last writer wins in input order), provided no scene processed after that
  scene assigns the key again, as its bare id or as its compound key.
\<close>

theorem index_scenes_by_id_bare_last_chapter:
  assumes "NovelScenes.chapters nso = chs0 @ ch_a # chs1 @ ch_b # chs2"
    and "s_a \<in> set (scenes ch_a)" and "scene_id s_a = k"
    and "scenes ch_b = ss1 @ s_b # ss2" and "scene_id s_b = k"
    and "k \<noteq> []"
    and "no_later_write k ch_b ss2 chs2"
  shows "index_scenes_by_id nso k = Some s_b"
proof -
  have chs: "NovelScenes.chapters nso = (chs0 @ ch_a # chs1) @ ch_b # chs2"
    using assms(1) by simp
  have wk: "writes_key k (ChapterScenes.chapter_id ch_b) s_b"
    using assms(5,6) by (simp add: writes_key_def)
  show ?thesis
    by (rule index_last_writer [OF chs assms(4) wk assms(7)])
qed

theorem index_scenes_by_id_bare_last_chapter_witness:
  "mk_scene ''1'' ''v01_ch001'' ''arrival'' \<in> set (scenes chapter_one)
   \<and> mk_scene ''1'' ''v01_ch002'' ''march'' \<in> set (scenes chapter_two)
   \<and> index_scenes_by_id corpus_a ''1'' = Some (mk_scene ''1'' ''v01_ch002'' ''march'')"
  using index_scenes_by_id_bare_last_chapter [of corpus_a "[]" chapter_one "[]" chapter_two "[]"
      "mk_scene ''1'' ''v01_ch001'' ''arrival''" "''1''" "[]"
      "mk_scene ''1'' ''v01_ch002'' ''march''" "[mk_scene ''2'' ''v01_ch002'' ''siege'']"]
  by (simp add: corpus_a_def chapter_one_def chapter_two_def mk_chapter_def mk_scene_def
      no_later_write_def writes_key_def compound_id_def)

section \<open>Properties of the Keyframe Deriver\<close>

lemma beats_loop_contributions:
  "beats_loop client idx nid ttl bs calls acc = Inr out
   \<Longrightarrow> \<exists>kfss. out = acc @ concat kfss \<and> list_all2 (beat_contribution client idx nid ttl) bs kfss"
proof (induction bs arbitrary: calls acc out)
  case Nil
  then show ?case by simp
next
  case (Cons beat rest)
  let ?sfb = "scenes_for_beat idx (source_scenes beat)"
  show ?case
  proof (cases "?sfb = []")
    case True
    with Cons.prems have "beats_loop client idx nid ttl rest calls acc = Inr out"
      by simp
    then obtain kfss where k: "out = acc @ concat kfss"
        "list_all2 (beat_contribution client idx nid ttl) rest kfss"
      using Cons.IH by blast
    have "beat_contribution client idx nid ttl beat []"
      using True by (simp add: beat_contribution_def)
    with k have "out = acc @ concat ([] # kfss)
        \<and> list_all2 (beat_contribution client idx nid ttl) (beat # rest) ([] # kfss)"
      by simp
    then show ?thesis by blast
  next
    case False
    let ?req = "\<lparr> req_beat = beat, req_scenes = ?sfb, req_novel_id = nid, req_title = ttl \<rparr>"
    from Cons.prems False obtain beat_kf where bk: "client calls ?req = Inr beat_kf"
      by (cases "client calls ?req") (auto simp: Let_def)
    let ?kfs = "map (\<lambda>kf. kf\<lparr>Keyframe.characters := TrailerBeat.characters beat\<rparr>)
                   (BeatKeyframes.keyframes beat_kf)"
    from Cons.prems False bk
    have "beats_loop client idx nid ttl rest (Suc calls) (acc @ ?kfs) = Inr out"
      by (simp add: Let_def)
    then obtain kfss where k: "out = (acc @ ?kfs) @ concat kfss"
        "list_all2 (beat_contribution client idx nid ttl) rest kfss"
      using Cons.IH by blast
    have "beat_contribution client idx nid ttl beat ?kfs"
      using False bk by (auto simp: beat_contribution_def Let_def)
    with k have "out = acc @ concat (?kfs # kfss)
        \<and> list_all2 (beat_contribution client idx nid ttl) (beat # rest) (?kfs # kfss)"
      by simp
    then show ?thesis by blast
  qed
qed

lemma generate_keyframes_contributions:
  assumes "generate_keyframes_for_trailer client nso ts = Inr plan"
  shows "\<exists>kfss. KeyframePlan.keyframes plan = concat kfss
           \<and> list_all2 (beat_contribution client (index_scenes_by_id nso)
                          (KeyframePlan.novel_id plan) (KeyframePlan.title plan))
                        (beats ts) kfss"
proof -
  from assms obtain nid ttl out where
    run: "beats_loop client (index_scenes_by_id nso) nid ttl (beats ts) 0 [] = Inr out"
    and plan: "plan = \<lparr> KeyframePlan.novel_id = nid, title = ttl, keyframes = out \<rparr>"
    by (auto simp: generate_keyframes_for_trailer_def Let_def split: sum.splits)
  from beats_loop_contributions [OF run] plan show ?thesis
    by simp
qed

lemma scenes_for_beat_comprehension:
  "scenes_for_beat idx ids = map (\<lambda>sid. the (idx sid)) (filter (\<lambda>sid. sid \<in> dom idx) ids)"
  by (induction ids) (auto split: option.splits)

lemma scenes_for_beat_empty:
  "scenes_for_beat idx ids = [] \<longleftrightarrow> (\<forall>sid \<in> set ids. idx sid = None)"
  by (induction ids) (auto split: option.splits)

lemma generate_keyframes_script_a:
  "generate_keyframes_for_trailer echo_service corpus_a script_a = Inr plan_a"
  by (simp add: generate_keyframes_for_trailer_def script_a_def plan_a_def mk_script_def beat_partial_def
      beat_dangling_def mk_beat_def index_corpus_a echo_service_def
      index_scenes_by_id_def corpus_a_def chapter_one_def chapter_two_def
      mk_chapter_def mk_scene_def compound_id_def Let_def)

text \<open>
  Claim C1, as stated, at a beat with one resolvable and one dangling source scene: the
  id \<^verbatim>\<open>v01_ch001_s9\<close> does not resolve, and the beat is not dropped: it is sent to the
  service with the one scene that resolves, and its keyframe is in the plan.
\<close>

theorem generate_keyframes_partial_beat_counterexample:
  "source_scenes beat_partial = [''v01_ch001_s1'', ''v01_ch001_s9'']
   \<and> index_scenes_by_id corpus_a ''v01_ch001_s9'' = None
   \<and> generate_keyframes_for_trailer echo_service corpus_a (mk_script 30 [beat_partial])
     = Inr \<lparr> KeyframePlan.novel_id = ''novel'', title = ''Title'',
             keyframes = [(scene_keyframe beat_partial (mk_scene ''1'' ''v01_ch001'' ''arrival''))
                            \<lparr>Keyframe.characters := [''Chu Yu'']\<rparr>] \<rparr>"
  by (simp add: generate_keyframes_for_trailer_def mk_script_def beat_partial_def
      mk_beat_def echo_service_def
      index_scenes_by_id_def corpus_a_def chapter_one_def chapter_two_def
      mk_chapter_def mk_scene_def compound_id_def Let_def)

text \<open>
  Claim C1, amended. In every run that completes, the plan is the concatenation of one
  list of keyframes per beat, in beat order. A beat none of whose \<^verbatim>\<open>source_scenes\<close>
  resolves in the scene index contributes no keyframes. Every other beat is processed:
  it contributes as many keyframes as a generation call returned that was made for the
  beat with the list of those source scenes that resolve, in citation order; the
  entries that do not resolve are left out of the request.
\<close>

theorem generate_keyframes_skips_unresolved:
  assumes "generate_keyframes_for_trailer client nso ts = Inr plan"
  shows "\<exists>kfss. KeyframePlan.keyframes plan = concat kfss
           \<and> list_all2
                (\<lambda>beat kfs.
                   if \<forall>sid \<in> set (source_scenes beat). index_scenes_by_id nso sid = None
                   then kfs = []
                   else \<exists>calls beat_kf.
                          client calls
                            \<lparr> req_beat = beat,
                              req_scenes = map (\<lambda>sid. the (index_scenes_by_id nso sid))
                                (filter (\<lambda>sid. sid \<in> dom (index_scenes_by_id nso))
                                   (source_scenes beat)),
                              req_novel_id = KeyframePlan.novel_id plan,
                              req_title = KeyframePlan.title plan \<rparr> = Inr beat_kf
                        \<and> length kfs = length (BeatKeyframes.keyframes beat_kf))
                (beats ts) kfss"
proof -
  from generate_keyframes_contributions [OF assms] obtain kfss where
    k: "KeyframePlan.keyframes plan = concat kfss"
       "list_all2 (beat_contribution client (index_scenes_by_id nso)
                          (KeyframePlan.novel_id plan) (KeyframePlan.title plan))
                        (beats ts) kfss"
    by blast
  from k(2) have "list_all2
                (\<lambda>beat kfs.
                   if \<forall>sid \<in> set (source_scenes beat). index_scenes_by_id nso sid = None
                   then kfs = []
                   else \<exists>calls beat_kf.
                          client calls
                            \<lparr> req_beat = beat,
                              req_scenes = map (\<lambda>sid. the (index_scenes_by_id nso sid))
                                (filter (\<lambda>sid. sid \<in> dom (index_scenes_by_id nso))
                                   (source_scenes beat)),
                              req_novel_id = KeyframePlan.novel_id plan,
                              req_title = KeyframePlan.title plan \<rparr> = Inr beat_kf
                        \<and> length kfs = length (BeatKeyframes.keyframes beat_kf))
                (beats ts) kfss"
  proof (rule list_all2_mono)
    fix beat kfs
    assume "beat_contribution client (index_scenes_by_id nso)
              (KeyframePlan.novel_id plan) (KeyframePlan.title plan) beat kfs"
    then show "if \<forall>sid \<in> set (source_scenes beat). index_scenes_by_id nso sid = None
                   then kfs = []
                   else \<exists>calls beat_kf.
                          client calls
                            \<lparr> req_beat = beat,
                              req_scenes = map (\<lambda>sid. the (index_scenes_by_id nso sid))
                                (filter (\<lambda>sid. sid \<in> dom (index_scenes_by_id nso))
                                   (source_scenes beat)),
                              req_novel_id = KeyframePlan.novel_id plan,
                              req_title = KeyframePlan.title plan \<rparr> = Inr beat_kf
                        \<and> length kfs = length (BeatKeyframes.keyframes beat_kf)"
      unfolding beat_contribution_def Let_def scenes_for_beat_empty
        scenes_for_beat_comprehension [symmetric]
      by (fastforce split: if_splits)
  qed
  with k(1) show ?thesis by blast
qed

theorem generate_keyframes_skips_unresolved_witness:
  "generate_keyframes_for_trailer echo_service corpus_a script_a = Inr plan_a
   \<and> (\<exists>kfss. KeyframePlan.keyframes plan_a = concat kfss
           \<and> list_all2
                (\<lambda>beat kfs.
                   if \<forall>sid \<in> set (source_scenes beat). index_scenes_by_id corpus_a sid = None
                   then kfs = []
                   else \<exists>calls beat_kf.
                          echo_service calls
                            \<lparr> req_beat = beat,
                              req_scenes = map (\<lambda>sid. the (index_scenes_by_id corpus_a sid))
                                (filter (\<lambda>sid. sid \<in> dom (index_scenes_by_id corpus_a))
                                   (source_scenes beat)),
                              req_novel_id = KeyframePlan.novel_id plan_a,
                              req_title = KeyframePlan.title plan_a \<rparr> = Inr beat_kf
                        \<and> length kfs = length (BeatKeyframes.keyframes beat_kf))
                (beats script_a) kfss)"
  using generate_keyframes_skips_unresolved [OF generate_keyframes_script_a]
    generate_keyframes_script_a
  by blast

text \<open>
  Claim C6. Every keyframe of the plan has as its \<^verbatim>\<open>characters\<close> the \<^verbatim>\<open>characters\<close> list
  of the beat it was derived from (the beat of the loop iteration that produced it), so
  the set of its characters is a subset of the beat's; the keyframes of a beat are the
  keyframes returned by the generation call with only that field overwritten, whatever
  the call had put there.
\<close>

theorem generate_keyframes_inherits_characters:
  assumes "generate_keyframes_for_trailer client nso ts = Inr plan"
  shows "\<exists>kfss. KeyframePlan.keyframes plan = concat kfss
           \<and> list_all2
                (\<lambda>beat kfs.
                   (\<forall>kf \<in> set kfs.
                      Keyframe.characters kf = TrailerBeat.characters beat
                      \<and> set (Keyframe.characters kf) \<subseteq> set (TrailerBeat.characters beat))
                   \<and> (kfs = []
                      \<or> (\<exists>calls req beat_kf.
                            client calls req = Inr beat_kf
                          \<and> kfs = map (\<lambda>kf. kf\<lparr>Keyframe.characters := TrailerBeat.characters beat\<rparr>)
                                      (BeatKeyframes.keyframes beat_kf))))
                (beats ts) kfss"
proof -
  from generate_keyframes_contributions [OF assms] obtain kfss where
    k: "KeyframePlan.keyframes plan = concat kfss"
       "list_all2 (beat_contribution client (index_scenes_by_id nso)
                          (KeyframePlan.novel_id plan) (KeyframePlan.title plan))
                        (beats ts) kfss"
    by blast
  from k(2) have "list_all2
                (\<lambda>beat kfs.
                   (\<forall>kf \<in> set kfs.
                      Keyframe.characters kf = TrailerBeat.characters beat
                      \<and> set (Keyframe.characters kf) \<subseteq> set (TrailerBeat.characters beat))
                   \<and> (kfs = []
                      \<or> (\<exists>calls req beat_kf.
                            client calls req = Inr beat_kf
                          \<and> kfs = map (\<lambda>kf. kf\<lparr>Keyframe.characters := TrailerBeat.characters beat\<rparr>)
                                      (BeatKeyframes.keyframes beat_kf))))
                (beats ts) kfss"
  proof (rule list_all2_mono)
    fix beat kfs
    assume "beat_contribution client (index_scenes_by_id nso)
              (KeyframePlan.novel_id plan) (KeyframePlan.title plan) beat kfs"
    then show "(\<forall>kf \<in> set kfs.
                      Keyframe.characters kf = TrailerBeat.characters beat
                      \<and> set (Keyframe.characters kf) \<subseteq> set (TrailerBeat.characters beat))
                   \<and> (kfs = []
                      \<or> (\<exists>calls req beat_kf.
                            client calls req = Inr beat_kf
                          \<and> kfs = map (\<lambda>kf. kf\<lparr>Keyframe.characters := TrailerBeat.characters beat\<rparr>)
                                      (BeatKeyframes.keyframes beat_kf)))"
      unfolding beat_contribution_def Let_def
      by (auto split: if_splits)
  qed
  with k(1) show ?thesis by blast
qed

theorem generate_keyframes_inherits_characters_witness:
  "generate_keyframes_for_trailer echo_service corpus_a script_a = Inr plan_a
   \<and> (\<exists>kfss. KeyframePlan.keyframes plan_a = concat kfss
           \<and> list_all2
                (\<lambda>beat kfs.
                   (\<forall>kf \<in> set kfs.
                      Keyframe.characters kf = TrailerBeat.characters beat
                      \<and> set (Keyframe.characters kf) \<subseteq> set (TrailerBeat.characters beat))
                   \<and> (kfs = []
                      \<or> (\<exists>calls req beat_kf.
                            echo_service calls req = Inr beat_kf
                          \<and> kfs = map (\<lambda>kf. kf\<lparr>Keyframe.characters := TrailerBeat.characters beat\<rparr>)
                                      (BeatKeyframes.keyframes beat_kf))))
                (beats script_a) kfss)"
  using generate_keyframes_inherits_characters [OF generate_keyframes_script_a]
    generate_keyframes_script_a
  by blast

section \<open>Properties of the Trailer Beat Planner\<close>

lemma total_script_over: "total_duration script_over = 32"
  by (simp add: total_duration_def script_over_def mk_script_def mk_beat_def)

lemma novel_id_corpus_a: "trailer_novel_id corpus_a = Inr ''novel''"
  by (simp add: trailer_novel_id_def corpus_a_def truthy_def)

text \<open>
  Claim C2, as stated, at a model response whose beats last 6, 8, 14 and 4 seconds under
  a bound of 30 seconds: the planner returns that script, whose durations sum to 32.
\<close>

theorem generate_trailer_script_over_bound_counterexample:
  "generate_trailer_script_from_scenes service_over corpus_a ''tiktok'' 30 = Inr script_over
   \<and> total_duration script_over = 32
   \<and> max_duration_sec script_over = 30
   \<and> \<not> total_duration script_over \<le> of_int 30"
  by (simp add: generate_trailer_script_from_scenes_def novel_id_corpus_a service_over_def
      total_script_over) (simp add: script_over_def mk_script_def)

text \<open>
  Claim C2, amended. The Beat Planner states the bound \<^verbatim>\<open>max_duration_sec\<close> in the prompt
  and checks the model response against the \<^verbatim>\<open>TrailerScript\<close> schema only: whenever the
  novel id can be read from the scenes file, the outcome of the planner is the outcome
  of the one generation call, and a parsed script is returned unchanged, whatever its
  beat durations sum to. The sum of the returned script is below the bound only if the
  sum of the model response is.
\<close>

theorem generate_trailer_script_passes_response:
  assumes "trailer_novel_id novel_scenes = Inr nid"
  shows "generate_trailer_script_from_scenes client novel_scenes pf max_dur
         = client \<lparr> treq_scenes = novel_scenes, treq_novel_id = nid,
                     treq_title = trailer_title novel_scenes,
                     treq_platform = pf, treq_max_duration_sec = max_dur \<rparr>"
  using assms
  by (simp add: generate_trailer_script_from_scenes_def Let_def split: sum.splits)

theorem generate_trailer_script_passes_response_witness:
  "trailer_novel_id corpus_a = Inr ''novel''
   \<and> generate_trailer_script_from_scenes service_within corpus_a ''tiktok'' 30 = Inr script_within
   \<and> total_duration script_within = 28"
  using generate_trailer_script_passes_response [of corpus_a "''novel''" service_within "''tiktok''" 30]
  by (simp add: novel_id_corpus_a service_within_def total_duration_def script_within_def
      mk_script_def mk_beat_def)

section \<open>Properties of the Prompt Rewriter\<close>

lemma strip_examples:
  "strip '' painted siege '' = ''painted siege''"
  "strip [] = []"
  "strip [CHR 0xE3, CHR 0x80, CHR 0x80, CHR ''a'', CHR 0xC2, CHR 0xA0, CHR 0x0A] = ''a''"
  by (simp_all add: strip_def drop_spaces.simps space_tokens_def ascii_spaces_def wide_spaces_def)

lemma image_prompt_kf_one: "image_prompt kf_one = ''arrival''"
  by (simp add: kf_one_def scene_keyframe_def mk_scene_def)

text \<open>
  The two exits of one iteration that keep the keyframe as it is: the call was blocked
  until the retries ran out, or the response has no usable text and the fallback read
  raises.
\<close>

lemma rewrite_keyframe_blocked:
  assumes "rewrite_attempts client \<lparr> rw_style = style_guide, rw_keyframe = kf \<rparr> calls 0
             = Inr (ContentBlocked, calls')"
  shows "rewrite_keyframe client style_guide kf calls = Inr (kf, calls')"
  using assms by (simp add: rewrite_keyframe_def)

lemma rewrite_keyframe_unreadable:
  assumes "rewrite_attempts client \<lparr> rw_style = style_guide, rw_keyframe = kf \<rparr> calls 0
             = Inr (Answered resp, calls')"
    and "none_or_blank (resp_text resp)"
    and "first_part_text resp = Inl e"
  shows "rewrite_keyframe client style_guide kf calls = Inr (kf, calls')"
  using assms by (simp add: rewrite_keyframe_def)

text \<open>Every exit of one iteration that appends a keyframe changes its prompt at most.\<close>

lemma rewrite_keyframe_frame:
  assumes "rewrite_keyframe client style_guide kf calls = Inr (updated, calls')"
  shows "updated = kf\<lparr>image_prompt := image_prompt updated\<rparr>"
  using assms
  by (auto simp: rewrite_keyframe_def split: sum.splits attempt.splits option.splits if_splits)

lemma rewrite_loop_frame:
  "rewrite_loop client style_guide kfs calls new_keyframes = Inr out
   \<Longrightarrow> \<exists>updated. out = new_keyframes @ updated
         \<and> list_all2 (\<lambda>kf kf'. kf' = kf\<lparr>image_prompt := image_prompt kf'\<rparr>) kfs updated"
proof (induction kfs arbitrary: calls new_keyframes out)
  case Nil
  then show ?case by simp
next
  case (Cons kf rest)
  from Cons.prems obtain kf' calls' where
    one: "rewrite_keyframe client style_guide kf calls = Inr (kf', calls')"
    and more: "rewrite_loop client style_guide rest calls' (new_keyframes @ [kf']) = Inr out"
    by (auto split: sum.splits)
  from Cons.IH [OF more] obtain updated where
    u: "out = (new_keyframes @ [kf']) @ updated"
       "list_all2 (\<lambda>kf kf'. kf' = kf\<lparr>image_prompt := image_prompt kf'\<rparr>) rest updated"
    by blast
  have "kf' = kf\<lparr>image_prompt := image_prompt kf'\<rparr>"
    using one by (rule rewrite_keyframe_frame)
  with u have "out = new_keyframes @ (kf' # updated)
      \<and> list_all2 (\<lambda>kf kf'. kf' = kf\<lparr>image_prompt := image_prompt kf'\<rparr>) (kf # rest) (kf' # updated)"
    by simp
  then show ?case by blast
qed

lemma image_prompt_update_frame:
  assumes "kf' = kf\<lparr>image_prompt := p\<rparr>"
  shows "kf_id kf' = kf_id kf
       \<and> Keyframe.beat_id kf' = Keyframe.beat_id kf
       \<and> order_in_beat kf' = order_in_beat kf
       \<and> suggested_duration_sec kf' = suggested_duration_sec kf
       \<and> shot_type kf' = shot_type kf
       \<and> camera_angle kf' = camera_angle kf
       \<and> composition kf' = composition kf
       \<and> action kf' = action kf
       \<and> Keyframe.emotion_tags kf' = Keyframe.emotion_tags kf
       \<and> Keyframe.characters kf' = Keyframe.characters kf
       \<and> story_grounding kf' = story_grounding kf
       \<and> Keyframe.dialogue_or_text kf' = Keyframe.dialogue_or_text kf"
  using assms by simp

text \<open>
  Two runs in which the first keyframe keeps its prompt and the second is rewritten:
  the first keyframe is blocked five times, or its response is empty and has no
  candidate.
\<close>

lemma run_blocked:
  "rewrite_plan blocked_service style_a plan_two
     = Inr (plan_two\<lparr>KeyframePlan.keyframes := [kf_one, kf_two\<lparr>image_prompt := ''painted siege''\<rparr>]\<rparr>)"
  by (simp add: rewrite_plan_def plan_two_def rewrite_keyframe_def rewrite_attempts.simps
      max_retries_def blocked_service_def good_response_def none_or_blank_def strip_examples)

lemma run_blocked_styled: "rewrite_plan blocked_service style_a plan_two = Inr styled_two"
  by (simp add: run_blocked styled_two_def)

lemma run_empty:
  "rewrite_plan empty_service style_a plan_two
     = Inr (plan_two\<lparr>KeyframePlan.keyframes := [kf_one, kf_two\<lparr>image_prompt := ''painted siege''\<rparr>]\<rparr>)"
  by (simp add: rewrite_plan_def plan_two_def rewrite_keyframe_def rewrite_attempts.simps
      max_retries_def empty_service_def good_response_def none_or_blank_def strip_examples
      first_part_text_def)

text \<open>
  Claim C7, at a response with an empty text whose first candidate has a first part:
  the fallback read takes the text of that part without testing it again. When that
  text is empty as well, the keyframe is written with an empty \<^verbatim>\<open>image_prompt\<close> in place
  of its original prompt \<^verbatim>\<open>arrival\<close>; when that part has no text, the run ends with
  \<^verbatim>\<open>AttributeError\<close> and no plan is written.
\<close>

theorem rewrite_plan_empty_part_loses_prompt:
  "image_prompt kf_one = ''arrival''
   \<and> rewrite_plan empty_part_service style_a plan_two
     = Inr (plan_two\<lparr>KeyframePlan.keyframes :=
              [kf_one\<lparr>image_prompt := []\<rparr>, kf_two\<lparr>image_prompt := ''painted siege''\<rparr>]\<rparr>)
   \<and> rewrite_plan none_part_service style_a plan_two = Inl AttributeError"
  by (simp add: rewrite_plan_def plan_two_def rewrite_keyframe_def rewrite_attempts.simps
      max_retries_def empty_part_service_def none_part_service_def good_response_def
      none_or_blank_def strip_examples first_part_text_def image_prompt_kf_one)

text \<open>
  Claim C8. In every run that completes, the styled plan has the \<^verbatim>\<open>novel_id\<close> and the
  \<^verbatim>\<open>title\<close> of the input plan and as many keyframes, in the same order, and each
  keyframe of the styled plan is the keyframe of the input plan at the same position
  with at most its \<^verbatim>\<open>image_prompt\<close> changed: the twelve other fields are equal.
\<close>

theorem rewrite_plan_changes_image_prompt_only:
  assumes "rewrite_plan client style_guide plan = Inr new_plan"
  shows "KeyframePlan.novel_id new_plan = KeyframePlan.novel_id plan
       \<and> KeyframePlan.title new_plan = KeyframePlan.title plan
       \<and> length (KeyframePlan.keyframes new_plan) = length (KeyframePlan.keyframes plan)
       \<and> list_all2
            (\<lambda>kf kf'.
               kf' = kf\<lparr>image_prompt := image_prompt kf'\<rparr>
             \<and> kf_id kf' = kf_id kf
             \<and> Keyframe.beat_id kf' = Keyframe.beat_id kf
             \<and> order_in_beat kf' = order_in_beat kf
             \<and> suggested_duration_sec kf' = suggested_duration_sec kf
             \<and> shot_type kf' = shot_type kf
             \<and> camera_angle kf' = camera_angle kf
             \<and> composition kf' = composition kf
             \<and> action kf' = action kf
             \<and> Keyframe.emotion_tags kf' = Keyframe.emotion_tags kf
             \<and> Keyframe.characters kf' = Keyframe.characters kf
             \<and> story_grounding kf' = story_grounding kf
             \<and> Keyframe.dialogue_or_text kf' = Keyframe.dialogue_or_text kf)
            (KeyframePlan.keyframes plan) (KeyframePlan.keyframes new_plan)"
proof -
  from assms obtain out where
    run: "rewrite_loop client style_guide (KeyframePlan.keyframes plan) 0 [] = Inr out"
    and new: "new_plan = \<lparr> KeyframePlan.novel_id = KeyframePlan.novel_id plan,
                            KeyframePlan.title = KeyframePlan.title plan,
                            KeyframePlan.keyframes = out \<rparr>"
    by (auto simp: rewrite_plan_def split: sum.splits)
  from rewrite_loop_frame [OF run]
  have frame: "list_all2 (\<lambda>kf kf'. kf' = kf\<lparr>image_prompt := image_prompt kf'\<rparr>)
                 (KeyframePlan.keyframes plan) out"
    by simp
  then have len: "length out = length (KeyframePlan.keyframes plan)"
    by (simp add: list_all2_lengthD)
  from frame have "list_all2
            (\<lambda>kf kf'.
               kf' = kf\<lparr>image_prompt := image_prompt kf'\<rparr>
             \<and> kf_id kf' = kf_id kf
             \<and> Keyframe.beat_id kf' = Keyframe.beat_id kf
             \<and> order_in_beat kf' = order_in_beat kf
             \<and> suggested_duration_sec kf' = suggested_duration_sec kf
             \<and> shot_type kf' = shot_type kf
             \<and> camera_angle kf' = camera_angle kf
             \<and> composition kf' = composition kf
             \<and> action kf' = action kf
             \<and> Keyframe.emotion_tags kf' = Keyframe.emotion_tags kf
             \<and> Keyframe.characters kf' = Keyframe.characters kf
             \<and> story_grounding kf' = story_grounding kf
             \<and> Keyframe.dialogue_or_text kf' = Keyframe.dialogue_or_text kf)
            (KeyframePlan.keyframes plan) out"
  proof (rule list_all2_mono)
    fix kf kf'
    assume eq: "kf' = kf\<lparr>image_prompt := image_prompt kf'\<rparr>"
    from image_prompt_update_frame [OF eq] eq
    show "kf' = kf\<lparr>image_prompt := image_prompt kf'\<rparr>
             \<and> kf_id kf' = kf_id kf
             \<and> Keyframe.beat_id kf' = Keyframe.beat_id kf
             \<and> order_in_beat kf' = order_in_beat kf
             \<and> suggested_duration_sec kf' = suggested_duration_sec kf
             \<and> shot_type kf' = shot_type kf
             \<and> camera_angle kf' = camera_angle kf
             \<and> composition kf' = composition kf
             \<and> action kf' = action kf
             \<and> Keyframe.emotion_tags kf' = Keyframe.emotion_tags kf
             \<and> Keyframe.characters kf' = Keyframe.characters kf
             \<and> story_grounding kf' = story_grounding kf
             \<and> Keyframe.dialogue_or_text kf' = Keyframe.dialogue_or_text kf"
      by blast
  qed
  with len new show ?thesis by simp
qed

theorem rewrite_plan_changes_image_prompt_only_witness:
  "rewrite_plan blocked_service style_a plan_two = Inr styled_two
   \<and> KeyframePlan.novel_id styled_two = KeyframePlan.novel_id plan_two
   \<and> KeyframePlan.title styled_two = KeyframePlan.title plan_two
   \<and> length (KeyframePlan.keyframes styled_two) = length (KeyframePlan.keyframes plan_two)
   \<and> list_all2
            (\<lambda>kf kf'.
               kf' = kf\<lparr>image_prompt := image_prompt kf'\<rparr>
             \<and> kf_id kf' = kf_id kf
             \<and> Keyframe.beat_id kf' = Keyframe.beat_id kf
             \<and> order_in_beat kf' = order_in_beat kf
             \<and> suggested_duration_sec kf' = suggested_duration_sec kf
             \<and> shot_type kf' = shot_type kf
             \<and> camera_angle kf' = camera_angle kf
             \<and> composition kf' = composition kf
             \<and> action kf' = action kf
             \<and> Keyframe.emotion_tags kf' = Keyframe.emotion_tags kf
             \<and> Keyframe.characters kf' = Keyframe.characters kf
             \<and> story_grounding kf' = story_grounding kf
             \<and> Keyframe.dialogue_or_text kf' = Keyframe.dialogue_or_text kf)
            (KeyframePlan.keyframes plan_two) (KeyframePlan.keyframes styled_two)"
  using rewrite_plan_changes_image_prompt_only [OF run_blocked_styled] run_blocked_styled
  by blast

section \<open>Properties of the World Profile Synthesizer\<close>

text \<open>Stage one yields one hints record per chapter it is given, in order.\<close>

lemma hints_loop_all:
  "hints_loop client nname chs calls hints_list = Inr out
   \<Longrightarrow> \<exists>hs. out = hints_list @ hs
          \<and> list_all2 (\<lambda>ch h. \<exists>n. extract_chapter_world_hints client nname
                                       (chapter_label ch) (content ch) n = Inr h) chs hs"
proof (induction chs arbitrary: calls hints_list out)
  case Nil
  then show ?case by simp
next
  case (Cons ch rest)
  from Cons.prems obtain h where
    one: "extract_chapter_world_hints client nname (chapter_label ch) (content ch) calls = Inr h"
    and more: "hints_loop client nname rest (Suc calls) (hints_list @ [h]) = Inr out"
    by (auto split: sum.splits)
  from Cons.IH [OF more] obtain hs where
    hs: "out = (hints_list @ [h]) @ hs"
        "list_all2 (\<lambda>ch h. \<exists>n. extract_chapter_world_hints client nname
                                       (chapter_label ch) (content ch) n = Inr h) rest hs"
    by blast
  from one hs have "out = hints_list @ (h # hs)
      \<and> list_all2 (\<lambda>ch h. \<exists>n. extract_chapter_world_hints client nname
                                       (chapter_label ch) (content ch) n = Inr h) (ch # rest) (h # hs)"
    by auto
  then show ?case by blast
qed

lemma run_two_volume_all:
  "build_world_profile_two_stage echo_hints_service echo_profile_service two_volume_novel None
     = Inr (echo_profile ''novel'' [''Chapter 1'', ''Chapter 2''])"
  by (simp add: build_world_profile_two_stage_def two_volume_novel_def world_novel_name_def
      scanned_chapters_def extract_chapter_world_hints_def build_world_profile_from_hints_def
      echo_hints_service_def echo_profile_service_def echo_hints_def echo_profile_def
      mk_novel_chapter_def chapter_label_def Let_def)

lemma run_two_volume_capped:
  "build_world_profile_two_stage echo_hints_service echo_profile_service two_volume_novel (Some 1)
     = Inr (echo_profile ''novel'' [''Chapter 1''])"
  by (simp add: build_world_profile_two_stage_def two_volume_novel_def world_novel_name_def
      scanned_chapters_def slice_upto_def extract_chapter_world_hints_def
      build_world_profile_from_hints_def
      echo_hints_service_def echo_profile_service_def echo_hints_def echo_profile_def
      mk_novel_chapter_def chapter_label_def Let_def)

text \<open>
  Claim C9, as stated, at a novel of two volumes with the chapters 1 and 2 in the first
  volume and chapter 3 in the second: without a bound on the chapters, the synthesis
  call receives the hints of chapters 1 and 2 only; with \<^verbatim>\<open>max_chapters = 1\<close> it receives
  the hints of chapter 1 only.
\<close>

theorem build_world_profile_first_volume_counterexample:
  "map chapter_label (concat (map NovelVolume.chapters (volumes two_volume_novel)))
     = [''Chapter 1'', ''Chapter 2'', ''Chapter 3'']
   \<and> build_world_profile_two_stage echo_hints_service echo_profile_service two_volume_novel None
     = Inr (echo_profile ''novel'' [''Chapter 1'', ''Chapter 2''])
   \<and> build_world_profile_two_stage echo_hints_service echo_profile_service two_volume_novel (Some 1)
     = Inr (echo_profile ''novel'' [''Chapter 1''])"
  by (simp add: run_two_volume_all run_two_volume_capped)
     (simp add: two_volume_novel_def mk_novel_chapter_def chapter_label_def)

text \<open>
  Claim C9, amended. In every run that completes, the synthesis call receives one hints
  record for each scanned chapter, in chapter order, none left out or sampled between
  the two stages. The scanned chapters are the chapters of the first volume only, cut
  by the slice \<^verbatim>\<open>chapters[:max_chapters]\<close> when \<^verbatim>\<open>max_chapters\<close> is given (the first
  \<^verbatim>\<open>max_chapters\<close> chapters for a bound that is not negative; the default bound is 20).
\<close>

theorem build_world_profile_passes_all_scanned_hints:
  assumes "build_world_profile_two_stage hints_client profile_client data max_chapters = Inr profile"
  shows "\<exists>first_volume other_volumes hints_list.
           volumes data = first_volume # other_volumes
         \<and> list_all2
              (\<lambda>ch h. \<exists>n. extract_chapter_world_hints hints_client (world_novel_name data)
                                (chapter_label ch) (content ch) n = Inr h)
              (case max_chapters of
                 None \<Rightarrow> NovelVolume.chapters first_volume
               | Some m \<Rightarrow> slice_upto (NovelVolume.chapters first_volume) m)
              hints_list
         \<and> build_world_profile_from_hints profile_client (world_novel_name data) (summary data)
              hints_list = Inr profile"
proof -
  from assms obtain first_volume other_volumes where
    vols: "volumes data = first_volume # other_volumes"
    by (cases "volumes data") (auto simp: build_world_profile_two_stage_def Let_def)
  with assms obtain hints_list where
    loop: "hints_loop hints_client (world_novel_name data)
             (scanned_chapters first_volume max_chapters) 0 [] = Inr hints_list"
    and synth: "build_world_profile_from_hints profile_client (world_novel_name data)
             (summary data) hints_list = Inr profile"
    by (auto simp: build_world_profile_two_stage_def Let_def split: if_splits sum.splits)
  from hints_loop_all [OF loop]
  have "list_all2
              (\<lambda>ch h. \<exists>n. extract_chapter_world_hints hints_client (world_novel_name data)
                                (chapter_label ch) (content ch) n = Inr h)
              (scanned_chapters first_volume max_chapters) hints_list"
    by simp
  then have "list_all2
              (\<lambda>ch h. \<exists>n. extract_chapter_world_hints hints_client (world_novel_name data)
                                (chapter_label ch) (content ch) n = Inr h)
              (case max_chapters of
                 None \<Rightarrow> NovelVolume.chapters first_volume
               | Some m \<Rightarrow> slice_upto (NovelVolume.chapters first_volume) m)
              hints_list"
    by (simp add: scanned_chapters_def)
  with vols synth show ?thesis by blast
qed

theorem build_world_profile_passes_all_scanned_hints_witness:
  "build_world_profile_two_stage echo_hints_service echo_profile_service two_volume_novel None
     = Inr (echo_profile ''novel'' [''Chapter 1'', ''Chapter 2''])
   \<and> (\<exists>first_volume other_volumes hints_list.
           volumes two_volume_novel = first_volume # other_volumes
         \<and> list_all2
              (\<lambda>ch h. \<exists>n. extract_chapter_world_hints echo_hints_service
                                (world_novel_name two_volume_novel)
                                (chapter_label ch) (content ch) n = Inr h)
              (case None of
                 None \<Rightarrow> NovelVolume.chapters first_volume
               | Some m \<Rightarrow> slice_upto (NovelVolume.chapters first_volume) m)
              hints_list
         \<and> build_world_profile_from_hints echo_profile_service (world_novel_name two_volume_novel)
              (summary two_volume_novel) hints_list
             = Inr (echo_profile ''novel'' [''Chapter 1'', ''Chapter 2'']))"
  using build_world_profile_passes_all_scanned_hints [OF run_two_volume_all] run_two_volume_all
  by blast

end
